theory Spec2Isabelle
  imports Complex_Main "HOL-Library.Word"
begin

section \<open>Go values\<close>

text \<open>
  The shape code of excelize (\<^verbatim>\<open>shape.go\<close>) is embedded function by function.
  Go's \<^verbatim>\<open>int\<close> and \<^verbatim>\<open>uint\<close> are the 64-bit words of a 64-bit target, so \<open>+\<close> and \<open>*\<close>
  wrap as they do in Go. A \<^verbatim>\<open>float64\<close> is idealised as a real number: the code only
  compares such values with 0 and 1, multiplies two of them and truncates the product, and
  rounding, infinities and NaN are not modelled. A Go string is its list of bytes. A
  pointer field is an \<open>option\<close> (\<open>None\<close> is \<^verbatim>\<open>nil\<close>).
\<close>

type_synonym go_int = "64 word"
type_synonym go_uint = "64 word"
type_synonym float64 = real

definition float64_of_uint :: "go_uint \<Rightarrow> float64" where
  "float64_of_uint w = real (unat w)"

text \<open>The conversion \<^verbatim>\<open>int(x)\<close> of a float: the fraction is discarded (truncation towards zero).\<close>

definition int_of_float64 :: "float64 \<Rightarrow> go_int" where
  "int_of_float64 x = word_of_int (if 0 \<le> x then \<lfloor>x\<rfloor> else \<lceil>x\<rceil>)"

datatype error =
    ErrParameterInvalid
  | ErrSheetNotExist string
  | ErrSyntax
  | ErrRange
  | ErrCollaborator string

text \<open>A call either returns its \<^verbatim>\<open>error\<close> value (\<open>None\<close> is \<^verbatim>\<open>nil\<close>) or panics on a nil dereference.\<close>

datatype outcome = Returned "error option" | Panicked

subsection \<open>The functions of \<^verbatim>\<open>strings\<close> and \<^verbatim>\<open>strconv\<close> that the code calls\<close>

text \<open>\<^verbatim>\<open>strings.ToUpper\<close> on ASCII text: the letters a to z are mapped to A to Z, byte by byte.\<close>

definition toUpperChar :: "char \<Rightarrow> char" where
  "toUpperChar c =
     (if (97::nat) \<le> of_char c \<and> of_char c \<le> (122::nat) then char_of (of_char c - (32::nat)) else c)"

definition ToUpper :: "string \<Rightarrow> string" where
  "ToUpper s = map toUpperChar s"

text \<open>
  \<^verbatim>\<open>strings.ReplaceAll(s, old, new)\<close>: the non-overlapping occurrences of \<open>old\<close> are replaced
  from left to right. Both call sites pass a non-empty \<open>old\<close>; for an empty one the model
  returns \<open>s\<close>.
\<close>

function ReplaceAll :: "string \<Rightarrow> string \<Rightarrow> string \<Rightarrow> string" where
  "ReplaceAll [] old new = []"
| "ReplaceAll (c # s) old new =
     (if old \<noteq> [] \<and> take (length old) (c # s) = old
      then new @ ReplaceAll (drop (length old) (c # s)) old new
      else c # ReplaceAll s old new)"
  by pat_completeness auto
termination
  by (relation "measure (\<lambda>(s, old, new). length s)") (auto simp: neq_Nil_conv)

definition TrimPrefix :: "string \<Rightarrow> string \<Rightarrow> string" where
  "TrimPrefix s p = (if take (length p) s = p then drop (length p) s else s)"

definition TrimSuffix :: "string \<Rightarrow> string \<Rightarrow> string" where
  "TrimSuffix s p =
     (if length p \<le> length s \<and> drop (length s - length p) s = p
      then take (length s - length p) s else s)"

fun digits10 :: "nat \<Rightarrow> string" where
  "digits10 n =
     (if n < 10 then [''0123456789'' ! n]
      else digits10 (n div 10) @ [''0123456789'' ! (n mod 10)])"

declare digits10.simps [simp del]

definition Itoa :: "go_int \<Rightarrow> string" where
  "Itoa i = (if sint i < 0 then CHR ''-'' # digits10 (nat (- sint i)) else digits10 (nat (sint i)))"

definition isDigit :: "char \<Rightarrow> bool" where
  "isDigit c = ((48::nat) \<le> of_char c \<and> of_char c \<le> (57::nat))"

definition digitsValue :: "string \<Rightarrow> nat" where
  "digitsValue ds = foldl (\<lambda>a c. 10 * a + (of_char c - 48)) 0 ds"

text \<open>
  \<^verbatim>\<open>strconv.Atoi\<close>: an optional sign and at least one decimal digit; on a syntax error the
  value is 0, out of range it is the nearest bound, each with its error.
\<close>

definition Atoi :: "string \<Rightarrow> go_int \<times> error option" where
  "Atoi s =
     (let neg = (s \<noteq> [] \<and> hd s = CHR ''-'');
          ds = (if s \<noteq> [] \<and> (hd s = CHR ''+'' \<or> hd s = CHR ''-'') then tl s else s)
      in if ds = [] then (0, Some ErrSyntax)
         else if list_ex (\<lambda>c. \<not> isDigit c) ds then (0, Some ErrSyntax)
         else let n = int (digitsValue ds); v = (if neg then - n else n)
              in if v > 2 ^ 63 - 1 then (word_of_int (2 ^ 63 - 1), Some ErrRange)
                 else if v < - (2 ^ 63) then (word_of_int (- (2 ^ 63)), Some ErrRange)
                 else (word_of_int v, None))"

section \<open>The data model\<close>

subsection \<open>The shape description\<close>

text \<open>
  The type declarations are not part of \<^verbatim>\<open>shape.go\<close>; each record has the fields that
  \<^verbatim>\<open>shape.go\<close> reads or writes, with the types its expressions give them.
\<close>

record Font =
  Bold :: bool
  Italic :: bool
  Underline :: string
  Family :: string
  Size :: float64
  Color :: string

record RichTextRun =
  Font :: "Font option"
  Text :: string

record GraphicOptions =
  PrintObject :: "bool option"
  Locked :: "bool option"
  OffsetX :: go_int
  OffsetY :: go_int
  ScaleX :: float64
  ScaleY :: float64
  Positioning :: string

record ShapeLine =
  Color :: string
  Width :: "float64 option"

record Fill =
  Color :: "string list"
  Pattern :: go_int

record Shape =
  Macro :: string
  Type :: string
  Width :: go_uint
  Height :: go_uint
  Format :: GraphicOptions
  Fill :: Fill
  Line :: ShapeLine
  Paragraph :: "RichTextRun list"

text \<open>
  The caller owns the description and passes a pointer to it: the descriptions live in a
  store indexed by address, and a \<^verbatim>\<open>*Shape\<close> is an optional address.
\<close>

type_synonym heap = "nat \<Rightarrow> Shape"

subsection \<open>The drawing markup\<close>

record xlsxFrom =
  Col :: go_int
  ColOff :: go_int
  Row :: go_int
  RowOff :: go_int

record xlsxTo =
  Col :: go_int
  ColOff :: go_int
  Row :: go_int
  RowOff :: go_int

record attrValString =
  Val :: "string option"

record aScrgbClr =
  R :: float64
  G :: float64
  B :: float64

record aRef =
  Idx :: go_int
  ScrgbClr :: "aScrgbClr option"
  SrgbClr :: "attrValString option"

record aFontRef =
  Idx :: string
  SchemeClr :: "attrValString option"

record xlsxCNvPr =
  ID :: go_int
  Name :: string

record xdrCNvSpPr =
  TxBox :: bool

record xdrNvSpPr =
  CNvPr :: "xlsxCNvPr option"
  CNvSpPr :: "xdrCNvSpPr option"

record xlsxPrstGeom =
  Prst :: string

record xlsxLineProperties =
  W :: go_int

record xlsxSpPr =
  PrstGeom :: xlsxPrstGeom
  Ln :: xlsxLineProperties

record xdrStyle =
  LnRef :: "aRef option"
  FillRef :: "aRef option"
  EffectRef :: "aRef option"
  FontRef :: "aFontRef option"

record aBodyPr =
  VertOverflow :: string
  HorzOverflow :: string
  Wrap :: string
  RtlCol :: bool
  Anchor :: string

record xlsxCTTextFont =
  Typeface :: string

record aSolidFill =
  SrgbClr :: "attrValString option"

record aRPr =
  I :: bool
  B :: bool
  Lang :: string
  AltLang :: string
  U :: string
  Sz :: float64
  Latin :: "xlsxCTTextFont option"
  SolidFill :: "aSolidFill option"

record aR =
  RPr :: aRPr
  T :: string

record aEndParaRPr =
  Lang :: string

record aP =
  R :: "aR option"
  EndParaRPr :: "aEndParaRPr option"

record xdrTxBody =
  BodyPr :: "aBodyPr option"
  P :: "aP list"

record xdrSp =
  Macro :: string
  NvSpPr :: "xdrNvSpPr option"
  SpPr :: "xlsxSpPr option"
  Style :: "xdrStyle option"
  TxBody :: "xdrTxBody option"

record xdrClientData =
  FLocksWithSheet :: bool
  FPrintsWithSheet :: bool

record xdrCellAnchor =
  EditAs :: string
  From :: "xlsxFrom option"
  To :: "xlsxTo option"
  Sp :: "xdrSp option"
  ClientData :: "xdrClientData option"

record xlsxWsDr =
  TwoCellAnchor :: "xdrCellAnchor list"

subsection \<open>The file and its collaborators\<close>

text \<open>
  The state of a \<^verbatim>\<open>*File\<close> that adding a shape reads or writes: the worksheet
  descriptors, the relationship registry, the store of parsed drawing documents, the bytes
  of the parts of the package, the content-type registry and the namespaces declared by
  each sheet.
\<close>

record xlsxDrawing =
  RID :: nat

record xlsxWorksheet =
  Drawing :: "xlsxDrawing option"

record xlsxRelationship =
  ID :: nat
  Type :: string
  Target :: string
  TargetMode :: string

record File =
  sheetMap :: "string \<rightharpoonup> string"
  Sheet :: "string \<rightharpoonup> xlsxWorksheet"
  Relationships :: "string \<rightharpoonup> xlsxRelationship list"
  Drawings :: "string \<rightharpoonup> xlsxWsDr"
  Pkg :: "string \<rightharpoonup> string"
  ContentTypes :: "(string \<times> go_int) list"
  xmlAttr :: "string \<Rightarrow> string list"

text \<open>
  The constants and the collaborators whose inner working is no concern of
  \<^verbatim>\<open>shape.go\<close> are parameters: the default size and line width, the drawing units of a
  pixel (\<^verbatim>\<open>EMU\<close>), the converter \<^verbatim>\<open>ptToEMUs\<close> of a width in points to drawing units,
  the two relationship kinds, the cell-reference parser,
  the pixel-geometry resolver, the default-font provider, the count of drawing parts and
  the decoder of the bytes of a drawing part.
\<close>

record env =
  defaultShapeSize :: go_uint
  defaultShapeLineWidth :: float64
  EMU :: go_int
  ptToEMUs :: "float64 \<Rightarrow> go_int"
  SourceRelationshipDrawingML :: string
  SourceRelationship :: string
  CellNameToCoordinates :: "string \<Rightarrow> error + (go_int \<times> go_int)"
  positionObjectPixels ::
    "File \<Rightarrow> string \<Rightarrow> go_int \<Rightarrow> go_int \<Rightarrow> go_int \<Rightarrow> go_int \<Rightarrow> go_int \<Rightarrow> go_int
       \<Rightarrow> go_int \<times> go_int \<times> go_int \<times> go_int \<times> go_int \<times> go_int"
  GetDefaultFont :: "File \<Rightarrow> error + string"
  countDrawings :: "File \<Rightarrow> go_int"
  decodeWsDr :: "string \<Rightarrow> error + xlsxWsDr"

text \<open>Modelled from the spec: the constant \<^verbatim>\<open>DEFAULT_SCALE\<close> (1.0), declared outside \<^verbatim>\<open>shape.go\<close>.\<close>

definition defaultPictureScale :: float64 where
  "defaultPictureScale = 1"

text \<open>
  Modelled from the spec: the table of supported underline styles, declared outside
  \<^verbatim>\<open>shape.go\<close>; the documentation of \<^verbatim>\<open>AddShape\<close> lists the same names in the same order.
\<close>

definition supportedDrawingUnderlineTypes :: "string list" where
  "supportedDrawingUnderlineTypes =
     [''none'', ''words'', ''sng'', ''dbl'', ''heavy'', ''dotted'', ''dottedHeavy'', ''dash'',
      ''dashHeavy'', ''dashLong'', ''dashLongHeavy'', ''dotDash'', ''dotDashHeavy'',
      ''dotDotDash'', ''dotDotDashHeavy'', ''wavy'', ''wavyHeavy'', ''wavyDbl'']"

text \<open>
  Modelled from the spec: the helper \<^verbatim>\<open>inStrSlice\<close>, which resolves a name against a table:
  the index of the first entry equal to the name, or \<open>-1\<close>. \<^verbatim>\<open>shape.go\<close> calls it in the
  case-sensitive mode only; the other mode compares the upper-cased strings.
\<close>

definition inStrSlice :: "string list \<Rightarrow> string \<Rightarrow> bool \<Rightarrow> go_int" where
  "inStrSlice a x caseSensitive =
     (case find (\<lambda>i. if caseSensitive then x = a ! i
                       else (ToUpper x = ToUpper (a ! i) \<or> x = a ! i)) [0..<length a] of
        None \<Rightarrow> - 1
      | Some i \<Rightarrow> of_nat i)"

text \<open>
  Modelled from the spec: the worksheet accessor \<^verbatim>\<open>workSheetReader\<close>, which yields the
  descriptor of a sheet or fails for an unknown sheet.
\<close>

definition workSheetReader :: "File \<Rightarrow> string \<Rightarrow> error + xlsxWorksheet" where
  "workSheetReader f sheet =
     (case Sheet f sheet of None \<Rightarrow> Inl (ErrSheetNotExist sheet) | Some ws \<Rightarrow> Inr ws)"

text \<open>Modelled from the spec: the helper \<^verbatim>\<open>getSheetXMLPath\<close>, the path of the XML part of a sheet.\<close>

definition getSheetXMLPath :: "File \<Rightarrow> string \<Rightarrow> string \<times> bool" where
  "getSheetXMLPath f sheet =
     (case sheetMap f sheet of None \<Rightarrow> ('''', False) | Some path \<Rightarrow> (path, True))"

text \<open>
  Modelled from the spec: the relationship registrar. \<^verbatim>\<open>addRels\<close> registers a relationship
  of the given kind and target in the relationship part of its owner and returns the new
  relationship id, which no relationship of that part has yet;
  \<^verbatim>\<open>getSheetRelationshipsTargetByID\<close> resolves a relationship id of a sheet to its target.
\<close>

definition addRels :: "File \<Rightarrow> string \<Rightarrow> string \<Rightarrow> string \<Rightarrow> string \<Rightarrow> File \<times> nat" where
  "addRels f relPath relType target targetMode =
     (let rels = (case Relationships f relPath of None \<Rightarrow> [] | Some rs \<Rightarrow> rs);
          rID = Suc (foldr max (map xlsxRelationship.ID rels) 0)
      in (f\<lparr>Relationships := (Relationships f)(relPath \<mapsto>
              rels @ [\<lparr>xlsxRelationship.ID = rID, xlsxRelationship.Type = relType, Target = target, TargetMode = targetMode\<rparr>])\<rparr>,
          rID))"

definition getSheetRelationshipsTargetByID :: "File \<Rightarrow> string \<Rightarrow> nat \<Rightarrow> string" where
  "getSheetRelationshipsTargetByID f sheet rID =
     (let (sheetXMLPath, ok) = getSheetXMLPath f sheet;
          sheetRels = ''xl/worksheets/_rels/'' @ TrimPrefix sheetXMLPath ''xl/worksheets/'' @ ''.rels''
      in case Relationships f sheetRels of
           None \<Rightarrow> ''''
         | Some rels \<Rightarrow>
             (case find (\<lambda>r. xlsxRelationship.ID r = rID) rels of
                None \<Rightarrow> ''''
              | Some r \<Rightarrow> Target r))"

text \<open>
  Modelled from the spec: \<^verbatim>\<open>addSheetDrawing\<close> records the relationship id on the descriptor
  of the sheet, and \<^verbatim>\<open>addSheetNameSpace\<close> makes sure that the sheet declares a namespace.
\<close>

definition addSheetDrawing :: "File \<Rightarrow> string \<Rightarrow> nat \<Rightarrow> File" where
  "addSheetDrawing f sheet rID =
     (case Sheet f sheet of
        None \<Rightarrow> f
      | Some ws \<Rightarrow> f\<lparr>Sheet := (Sheet f)(sheet \<mapsto> ws\<lparr>Drawing := Some \<lparr>RID = rID\<rparr>\<rparr>)\<rparr>)"

definition addSheetNameSpace :: "File \<Rightarrow> string \<Rightarrow> string \<Rightarrow> File" where
  "addSheetNameSpace f sheet ns =
     (if List.member (xmlAttr f sheet) ns then f
      else f\<lparr>xmlAttr := (xmlAttr f)(sheet := xmlAttr f sheet @ [ns])\<rparr>)"

text \<open>
  Modelled from the spec: the content-type registrar \<^verbatim>\<open>addContentTypePart\<close>, which
  registers the entry of a part index and kind once.
\<close>

definition addContentTypePart :: "File \<Rightarrow> go_int \<Rightarrow> string \<Rightarrow> File \<times> error option" where
  "addContentTypePart f index contentType =
     (if List.member (ContentTypes f) (contentType, index) then (f, None)
      else (f\<lparr>ContentTypes := ContentTypes f @ [(contentType, index)]\<rparr>, None))"

text \<open>
  Modelled from the spec: the drawing-document store's \<^verbatim>\<open>drawingParser\<close>. It loads the
  parsed document of a part path: the stored one, else the one decoded from the bytes of
  the part (a parse error is returned), else a new empty one. The next shape identity is
  one greater than the number of anchors of the document. Loading leaves the store as it
  is.
\<close>

definition drawingParser :: "env \<Rightarrow> File \<Rightarrow> string \<Rightarrow> error + (xlsxWsDr \<times> go_int)" where
  "drawingParser env f path =
     (case (case Drawings f path of
              Some d \<Rightarrow> Inr d
            | None \<Rightarrow>
                (case Pkg f path of
                   None \<Rightarrow> Inr \<lparr>TwoCellAnchor = []\<rparr>
                 | Some bytes \<Rightarrow> decodeWsDr env bytes)) of
        Inl err \<Rightarrow> Inl err
      | Inr content \<Rightarrow> Inr (content, of_nat (length (TwoCellAnchor content)) + 1))"

section \<open>The functions of \<^verbatim>\<open>shape.go\<close>\<close>

subsection \<open>\<^verbatim>\<open>parseShapeOptions\<close>\<close>

text \<open>
  The function writes each default through the pointer it was given, one field after the
  other, and returns that pointer.
\<close>

definition parseShapeOptions :: "env \<Rightarrow> heap \<Rightarrow> nat option \<Rightarrow> heap \<times> (error + nat)" where
  "parseShapeOptions env h opts =
     (case opts of
        None \<Rightarrow> (h, Inl ErrParameterInvalid)
      | Some a \<Rightarrow>
          (let h1 = (if Shape.Width (h a) = 0
                     then h(a := (h a)\<lparr>Shape.Width := defaultShapeSize env\<rparr>) else h);
               h2 = (if Height (h1 a) = 0
                     then h1(a := (h1 a)\<lparr>Height := defaultShapeSize env\<rparr>) else h1);
               h3 = (if PrintObject (Format (h2 a)) = None
                     then h2(a := (h2 a)\<lparr>Format := (Format (h2 a))\<lparr>PrintObject := Some True\<rparr>\<rparr>)
                     else h2);
               h4 = (if Locked (Format (h3 a)) = None
                     then h3(a := (h3 a)\<lparr>Format := (Format (h3 a))\<lparr>Locked := Some False\<rparr>\<rparr>)
                     else h3);
               h5 = (if ScaleX (Format (h4 a)) = 0
                     then h4(a := (h4 a)\<lparr>Format := (Format (h4 a))\<lparr>ScaleX := defaultPictureScale\<rparr>\<rparr>)
                     else h4);
               h6 = (if ScaleY (Format (h5 a)) = 0
                     then h5(a := (h5 a)\<lparr>Format := (Format (h5 a))\<lparr>ScaleY := defaultPictureScale\<rparr>\<rparr>)
                     else h5);
               h7 = (if ShapeLine.Width (Line (h6 a)) = None
                     then h6(a := (h6 a)\<lparr>Line := (Line (h6 a))\<lparr>ShapeLine.Width :=
                                                    Some (defaultShapeLineWidth env)\<rparr>\<rparr>)
                     else h6)
           in (h7, Inr a)))"

subsection \<open>\<^verbatim>\<open>setShapeRef\<close>\<close>

definition setShapeRef :: "string \<Rightarrow> go_int \<Rightarrow> aRef option" where
  "setShapeRef color i =
     (if color = ''''
      then Some \<lparr>aRef.Idx = 0,
                 ScrgbClr = Some \<lparr>aScrgbClr.R = 0, G = 0, aScrgbClr.B = 0\<rparr>,
                 aRef.SrgbClr = None\<rparr>
      else Some \<lparr>aRef.Idx = i,
                 ScrgbClr = None,
                 aRef.SrgbClr = Some \<lparr>Val = Some (ReplaceAll (ToUpper color) ''#'' '''')\<rparr>\<rparr>)"

subsection \<open>\<^verbatim>\<open>addDrawingShape\<close>\<close>

text \<open>
  The body of the loop over the paragraphs: the paragraph markup of one text run. A run
  without a font takes the zero \<^verbatim>\<open>Font\<close>.
\<close>

definition shapeParagraph :: "RichTextRun \<Rightarrow> aP" where
  "shapeParagraph p =
     (let u = ''none'';
          font = (case Font p of
                    None \<Rightarrow> \<lparr>Bold = False, Italic = False, Underline = '''', Family = '''',
                             Size = 0, Font.Color = ''''\<rparr>
                  | Some fnt \<Rightarrow> fnt);
          idx = inStrSlice supportedDrawingUnderlineTypes (Underline font) True;
          u = (if idx \<noteq> - 1 then supportedDrawingUnderlineTypes ! unat idx else u);
          text = Text p;
          text = (if text = '''' then '' '' else text);
          paragraph = \<lparr>aP.R = Some \<lparr>RPr = \<lparr>I = Italic font,
                                                aRPr.B = Bold font,
                                                aRPr.Lang = ''en-US'',
                                                AltLang = ''en-US'',
                                                U = u,
                                                Sz = Size font * 100,
                                                Latin = Some \<lparr>Typeface = Family font\<rparr>,
                                                SolidFill = None\<rparr>,
                                         T = text\<rparr>,
                       EndParaRPr = Some \<lparr>aEndParaRPr.Lang = ''en-US''\<rparr>\<rparr>;
          srgbClr = ReplaceAll (ToUpper (Font.Color font)) ''#'' ''''
      in if length srgbClr = 6
         then paragraph\<lparr>aP.R := map_option
                (\<lambda>r. r\<lparr>RPr := (RPr r)\<lparr>SolidFill :=
                          Some \<lparr>aSolidFill.SrgbClr = Some \<lparr>Val = Some srgbClr\<rparr>\<rparr>\<rparr>\<rparr>)
                (aP.R paragraph)\<rparr>
         else paragraph)"

text \<open>The loop: each paragraph is appended to the text body of the shape, in order.\<close>

fun addParagraphs :: "xdrSp \<Rightarrow> RichTextRun list \<Rightarrow> xdrSp" where
  "addParagraphs shape [] = shape"
| "addParagraphs shape (p # ps) =
     addParagraphs
       (shape\<lparr>TxBody := map_option (\<lambda>body. body\<lparr>P := P body @ [shapeParagraph p]\<rparr>) (TxBody shape)\<rparr>)
       ps"

text \<open>
  The function returns the file, the store of descriptions (the default paragraph is
  written through the pointer) and its outcome. The three dereferences of pointer fields
  of the description panic on \<^verbatim>\<open>nil\<close>.
\<close>

definition addDrawingShape ::
  "env \<Rightarrow> File \<Rightarrow> heap \<Rightarrow> string \<Rightarrow> string \<Rightarrow> string \<Rightarrow> nat \<Rightarrow> File \<times> heap \<times> outcome" where
  "addDrawingShape env f h sheet drawingXML cell opts =
     (case CellNameToCoordinates env cell of
        Inl err \<Rightarrow> (f, h, Returned (Some err))
      | Inr (fromCol, fromRow) \<Rightarrow>
          (let width = int_of_float64 (float64_of_uint (Shape.Width (h opts)) * ScaleX (Format (h opts)));
               height = int_of_float64 (float64_of_uint (Height (h opts)) * ScaleY (Format (h opts)));
               (colStart, rowStart, colEnd, rowEnd, x2, y2) =
                 positionObjectPixels env f sheet fromCol fromRow
                   (OffsetX (Format (h opts))) (OffsetY (Format (h opts))) width height
           in case drawingParser env f drawingXML of
                Inl err \<Rightarrow> (f, h, Returned (Some err))
              | Inr (content, cNvPrID) \<Rightarrow>
                  (let from = \<lparr>xlsxFrom.Col = colStart,
                              xlsxFrom.ColOff = OffsetX (Format (h opts)) * EMU env,
                              xlsxFrom.Row = rowStart,
                              xlsxFrom.RowOff = OffsetY (Format (h opts)) * EMU env\<rparr>;
                       to = \<lparr>xlsxTo.Col = colEnd,
                            xlsxTo.ColOff = x2 * EMU env,
                            xlsxTo.Row = rowEnd,
                            xlsxTo.RowOff = y2 * EMU env\<rparr>;
                       twoCellAnchor = \<lparr>EditAs = Positioning (Format (h opts)),
                                       From = Some from, To = Some to,
                                       Sp = None, ClientData = None\<rparr>;
                       solidColor = (if length (Fill.Color (Fill (h opts))) = 1
                                     then Fill.Color (Fill (h opts)) ! 0 else '''');
                       shape = \<lparr>xdrSp.Macro = Shape.Macro (h opts),
                               NvSpPr = Some \<lparr>CNvPr = Some \<lparr>xlsxCNvPr.ID = cNvPrID,
                                                             Name = ''Shape '' @ Itoa cNvPrID\<rparr>,
                                              CNvSpPr = Some \<lparr>TxBox = True\<rparr>\<rparr>,
                               SpPr = Some \<lparr>PrstGeom = \<lparr>Prst = Shape.Type (h opts)\<rparr>,
                                            Ln = \<lparr>W = 0\<rparr>\<rparr>,
                               Style = Some \<lparr>LnRef = setShapeRef (ShapeLine.Color (Line (h opts))) 2,
                                             FillRef = setShapeRef solidColor 1,
                                             EffectRef = setShapeRef '''' 0,
                                             FontRef = Some \<lparr>aFontRef.Idx = ''minor'',
                                                              SchemeClr = Some \<lparr>Val = Some ''tx1''\<rparr>\<rparr>\<rparr>,
                               TxBody = Some \<lparr>BodyPr = Some \<lparr>VertOverflow = ''clip'',
                                                               HorzOverflow = ''clip'',
                                                               Wrap = ''none'',
                                                               RtlCol = False,
                                                               Anchor = ''t''\<rparr>,
                                              P = []\<rparr>\<rparr>
                   in case ShapeLine.Width (Line (h opts)) of
                        None \<Rightarrow> (f, h, Panicked)
                      | Some lineWidth \<Rightarrow>
                          (let shape =
                                 (if lineWidth \<noteq> 1
                                  then shape\<lparr>SpPr := map_option
                                         (\<lambda>spPr. spPr\<lparr>Ln := \<lparr>W = ptToEMUs env lineWidth\<rparr>\<rparr>) (SpPr shape)\<rparr>
                                  else shape)
                           in case GetDefaultFont env f of
                                Inl err \<Rightarrow> (f, h, Returned (Some err))
                              | Inr defaultFont \<Rightarrow>
                                  (let h' = (if length (Paragraph (h opts)) < 1
                                             then h(opts := (h opts)\<lparr>Paragraph :=
                                                    [\<lparr>Font = Some \<lparr>Bold = False,
                                                                    Italic = False,
                                                                    Underline = ''none'',
                                                                    Family = defaultFont,
                                                                    Size = 11,
                                                                    Font.Color = ''000000''\<rparr>,
                                                      Text = '' ''\<rparr>]\<rparr>)
                                             else h);
                                       shape = addParagraphs shape (Paragraph (h' opts))
                                   in case Locked (Format (h' opts)) of
                                        None \<Rightarrow> (f, h', Panicked)
                                      | Some locked \<Rightarrow>
                                          (case PrintObject (Format (h' opts)) of
                                             None \<Rightarrow> (f, h', Panicked)
                                           | Some printObject \<Rightarrow>
                                               (let twoCellAnchor = twoCellAnchor
                                                      \<lparr>Sp := Some shape,
                                                       ClientData := Some
                                                         \<lparr>FLocksWithSheet = locked,
                                                          FPrintsWithSheet = printObject\<rparr>\<rparr>;
                                                    content = content\<lparr>TwoCellAnchor :=
                                                      TwoCellAnchor content @ [twoCellAnchor]\<rparr>
                                                in (f\<lparr>Drawings := (Drawings f)(drawingXML \<mapsto> content)\<rparr>,
                                                    h', Returned None))))))))"

subsection \<open>\<^verbatim>\<open>AddShape\<close>\<close>

definition AddShape ::
  "env \<Rightarrow> File \<Rightarrow> heap \<Rightarrow> string \<Rightarrow> string \<Rightarrow> nat option \<Rightarrow> File \<times> heap \<times> outcome" where
  "AddShape env f h sheet cell opts =
     (case parseShapeOptions env h opts of
        (h1, Inl err) \<Rightarrow> (f, h1, Returned (Some err))
      | (h1, Inr options) \<Rightarrow>
          (case workSheetReader f sheet of
             Inl err \<Rightarrow> (f, h1, Returned (Some err))
           | Inr ws \<Rightarrow>
               (let drawingID = countDrawings env f + 1;
                    drawingXML = ''xl/drawings/drawing'' @ Itoa drawingID @ ''.xml'';
                    sheetRelationshipsDrawingXML = ''../drawings/drawing'' @ Itoa drawingID @ ''.xml'';
                    (f1, drawingID, drawingXML) =
                      (case Drawing ws of
                         Some drawing \<Rightarrow>
                           (let sheetRelationshipsDrawingXML =
                                  getSheetRelationshipsTargetByID f sheet (RID drawing);
                                drawingID = fst (Atoi (TrimSuffix
                                  (TrimPrefix sheetRelationshipsDrawingXML ''../drawings/drawing'')
                                  ''.xml''));
                                drawingXML = ReplaceAll sheetRelationshipsDrawingXML ''..'' ''xl''
                            in (f, drawingID, drawingXML))
                       | None \<Rightarrow>
                           (let (sheetXMLPath, ok) = getSheetXMLPath f sheet;
                                sheetRels = ''xl/worksheets/_rels/''
                                  @ TrimPrefix sheetXMLPath ''xl/worksheets/'' @ ''.rels'';
                                (fa, rID) = addRels f sheetRels (SourceRelationshipDrawingML env)
                                  sheetRelationshipsDrawingXML '''';
                                fb = addSheetDrawing fa sheet rID;
                                fc = addSheetNameSpace fb sheet (SourceRelationship env)
                            in (fc, drawingID, drawingXML)))
                in case addDrawingShape env f1 h1 sheet drawingXML cell options of
                     (f2, h2, r) \<Rightarrow>
                       (if r = Returned None
                        then (case addContentTypePart f2 drawingID ''drawings'' of
                                (f3, err) \<Rightarrow> (f3, h2, Returned err))
                        else (f2, h2, r)))))"

section \<open>A concrete file\<close>

text \<open>
  The instance at which the theorems below are exercised: a workbook with one sheet that
  has no drawing yet, columns of 64 pixels and rows of 20 pixels, and the rectangle of the
  documentation of \<^verbatim>\<open>AddShape\<close>.
\<close>

definition exampleEnv :: env where
  "exampleEnv =
     \<lparr>defaultShapeSize = 160,
      defaultShapeLineWidth = 1,
      EMU = 9525,
      ptToEMUs = (\<lambda>pt. int_of_float64 (12700 * pt)),
      SourceRelationshipDrawingML = ''relationships/drawing'',
      SourceRelationship = ''relationships'',
      CellNameToCoordinates =
        (\<lambda>cell. if cell = ''G6'' then Inr (7, 6) else Inl (ErrCollaborator ''invalid cell name'')),
      positionObjectPixels =
        (\<lambda>f sheet col row x1 y1 width height.
           (col - 1, row - 1, col - 1 + (x1 + width) div 64, row - 1 + (y1 + height) div 20,
            (x1 + width) mod 64, (y1 + height) mod 20)),
      GetDefaultFont = (\<lambda>f. Inr ''Calibri''),
      countDrawings = (\<lambda>f. 0),
      decodeWsDr = (\<lambda>bytes. Inl (ErrCollaborator ''XML syntax error''))\<rparr>"

definition exampleShape :: Shape where
  "exampleShape =
     \<lparr>Shape.Macro = '''',
      Shape.Type = ''rect'',
      Shape.Width = 180,
      Height = 40,
      Format = \<lparr>PrintObject = None, Locked = None, OffsetX = 0, OffsetY = 0,
                ScaleX = 0, ScaleY = 0, Positioning = ''''\<rparr>,
      Fill = \<lparr>Fill.Color = [''8EB9FF''], Pattern = 1\<rparr>,
      Line = \<lparr>ShapeLine.Color = ''4286F4'', ShapeLine.Width = Some 2\<rparr>,
      Paragraph = [\<lparr>Font = Some \<lparr>Bold = True, Italic = True, Underline = ''sng'',
                                    Family = ''Times New Roman'', Size = 18,
                                    Font.Color = ''777777''\<rparr>,
                    Text = ''Rectangle Shape''\<rparr>]\<rparr>"

definition exampleHeap :: heap where
  "exampleHeap = (\<lambda>a. exampleShape)"

definition exampleFile :: File where
  "exampleFile =
     \<lparr>sheetMap = [''Sheet1'' \<mapsto> ''xl/worksheets/sheet1.xml''],
      Sheet = [''Sheet1'' \<mapsto> \<lparr>Drawing = None\<rparr>],
      Relationships = Map.empty,
      Drawings = Map.empty,
      Pkg = Map.empty,
      ContentTypes = [],
      xmlAttr = (\<lambda>sheet. [])\<rparr>"

section \<open>The options resolver\<close>

text \<open>The defaulting table of the options resolver, applied to a description.\<close>

definition resolvedShape :: "env \<Rightarrow> Shape \<Rightarrow> Shape" where
  "resolvedShape env s =
     s\<lparr>Shape.Width := (if Shape.Width s = 0 then defaultShapeSize env else Shape.Width s),
       Height := (if Height s = 0 then defaultShapeSize env else Height s),
       Format := (Format s)\<lparr>
         PrintObject := (case PrintObject (Format s) of None \<Rightarrow> Some True | Some b \<Rightarrow> Some b),
         Locked := (case Locked (Format s) of None \<Rightarrow> Some False | Some b \<Rightarrow> Some b),
         ScaleX := (if ScaleX (Format s) = 0 then defaultPictureScale else ScaleX (Format s)),
         ScaleY := (if ScaleY (Format s) = 0 then defaultPictureScale else ScaleY (Format s))\<rparr>,
       Line := (Line s)\<lparr>ShapeLine.Width :=
         (case ShapeLine.Width (Line s) of
            None \<Rightarrow> Some (defaultShapeLineWidth env)
          | Some w \<Rightarrow> Some w)\<rparr>\<rparr>"

lemma if_fun_upd: "(if c then h(a := x) else h) = h(a := (if c then x else h a))"
  by simp

lemma parseShapeOptions_Some:
  "parseShapeOptions env h (Some a) = (h(a := resolvedShape env (h a)), Inr a)"
  unfolding parseShapeOptions_def Let_def if_fun_upd option.case
  apply (simp only: fun_upd_same fun_upd_upd prod.inject simp_thms)
  apply (rule arg_cong[where f="\<lambda>x. h(a := x)"])
  apply (cases "h a")
  subgoal for m t w hh fm fi li pa
    apply (cases fm; cases li)
    apply (simp add: resolvedShape_def split: option.splits)
    done
  done

lemma parseShapeOptions_None: "parseShapeOptions env h None = (h, Inl ErrParameterInvalid)"
  by (simp add: parseShapeOptions_def)

text \<open>
  Claim C2. \<^verbatim>\<open>parseShapeOptions\<close> returns the invalid-parameter error for the nil
  description and succeeds for every other one. In the resolved description the width and
  the height are the default shape size where the input was 0 and the input otherwise, the
  two scales are the default scale 1 where the input was 0 and the input otherwise,
  print-with-sheet is true and locked is false where the input was unset, the line width
  is the default line width where it was unset, and every field that was set, like every
  other field, is as it was.
\<close>

theorem parseShapeOptions_defaults:
  "parseShapeOptions env h None = (h, Inl ErrParameterInvalid) \<and>
   (\<exists>h'. parseShapeOptions env h (Some a) = (h', Inr a) \<and>
      Shape.Width (h' a) =
        (if Shape.Width (h a) = 0 then defaultShapeSize env else Shape.Width (h a)) \<and>
      Height (h' a) = (if Height (h a) = 0 then defaultShapeSize env else Height (h a)) \<and>
      ScaleX (Format (h' a)) = (if ScaleX (Format (h a)) = 0 then 1 else ScaleX (Format (h a))) \<and>
      ScaleY (Format (h' a)) = (if ScaleY (Format (h a)) = 0 then 1 else ScaleY (Format (h a))) \<and>
      PrintObject (Format (h' a)) =
        (case PrintObject (Format (h a)) of None \<Rightarrow> Some True | Some b \<Rightarrow> Some b) \<and>
      Locked (Format (h' a)) =
        (case Locked (Format (h a)) of None \<Rightarrow> Some False | Some b \<Rightarrow> Some b) \<and>
      ShapeLine.Width (Line (h' a)) =
        (case ShapeLine.Width (Line (h a)) of
           None \<Rightarrow> Some (defaultShapeLineWidth env)
         | Some w \<Rightarrow> Some w) \<and>
      Shape.Macro (h' a) = Shape.Macro (h a) \<and>
      Shape.Type (h' a) = Shape.Type (h a) \<and>
      Fill (h' a) = Fill (h a) \<and>
      Paragraph (h' a) = Paragraph (h a) \<and>
      ShapeLine.Color (Line (h' a)) = ShapeLine.Color (Line (h a)) \<and>
      OffsetX (Format (h' a)) = OffsetX (Format (h a)) \<and>
      OffsetY (Format (h' a)) = OffsetY (Format (h a)) \<and>
      Positioning (Format (h' a)) = Positioning (Format (h a)))"
  by (simp add: parseShapeOptions_None parseShapeOptions_Some resolvedShape_def
      defaultPictureScale_def)

section \<open>The style reference resolver\<close>

lemma ReplaceAll_hash: "ReplaceAll s ''#'' '''' = filter (\<lambda>c. c \<noteq> CHR ''#'') s"
  by (induction s) auto


section \<open>The description is written through the pointer\<close>

text \<open>
  Claim C9, as stated: \<^verbatim>\<open>parseShapeOptions\<close> leaves the description of its caller
  unmodified. It fails for the rectangle of the documentation, whose scales and flags are
  unset.
\<close>

theorem parseShapeOptions_pure_counterexample:
  "fst (parseShapeOptions exampleEnv exampleHeap (Some 0)) \<noteq> exampleHeap"
proof
  assume "fst (parseShapeOptions exampleEnv exampleHeap (Some 0)) = exampleHeap"
  then have "ScaleX (Format (fst (parseShapeOptions exampleEnv exampleHeap (Some 0)) 0))
               = ScaleX (Format (exampleHeap 0))"
    by simp
  then show False
    by (simp add: parseShapeOptions_Some resolvedShape_def exampleHeap_def exampleShape_def
        defaultPictureScale_def)
qed

text \<open>
  Claim C9, amended. \<^verbatim>\<open>parseShapeOptions\<close> has one effect: it writes the defaults into
  the description of its caller, through the pointer, and returns that pointer. Every other
  description is left as it was, and so is the description of the caller when none of its
  seven defaulted fields is zero or unset.
\<close>

theorem parseShapeOptions_frame:
  "parseShapeOptions env h None = (h, Inl ErrParameterInvalid) \<and>
   (\<exists>h'. parseShapeOptions env h (Some a) = (h', Inr a) \<and>
      h' = h(a := h' a) \<and>
      (Shape.Width (h a) \<noteq> 0 \<and> Height (h a) \<noteq> 0 \<and>
       PrintObject (Format (h a)) \<noteq> None \<and> Locked (Format (h a)) \<noteq> None \<and>
       ScaleX (Format (h a)) \<noteq> 0 \<and> ScaleY (Format (h a)) \<noteq> 0 \<and>
       ShapeLine.Width (Line (h a)) \<noteq> None \<longrightarrow> h' = h))"
proof -
  have "resolvedShape env (h a) = h a"
    if "Shape.Width (h a) \<noteq> 0" "Height (h a) \<noteq> 0"
       "PrintObject (Format (h a)) \<noteq> None" "Locked (Format (h a)) \<noteq> None"
       "ScaleX (Format (h a)) \<noteq> 0" "ScaleY (Format (h a)) \<noteq> 0"
       "ShapeLine.Width (Line (h a)) \<noteq> None"
    using that by (auto simp: resolvedShape_def)
  then show ?thesis
    by (auto simp: parseShapeOptions_None parseShapeOptions_Some)
qed

theorem parseShapeOptions_frame_witness:
  "parseShapeOptions exampleEnv (\<lambda>a. resolvedShape exampleEnv exampleShape) (Some 0)
     = (\<lambda>a. resolvedShape exampleEnv exampleShape, Inr 0)"
proof -
  let ?h = "\<lambda>a::nat. resolvedShape exampleEnv exampleShape"
  have set: "Shape.Width (?h 0) \<noteq> 0 \<and> Height (?h 0) \<noteq> 0 \<and>
       PrintObject (Format (?h 0)) \<noteq> None \<and> Locked (Format (?h 0)) \<noteq> None \<and>
       ScaleX (Format (?h 0)) \<noteq> 0 \<and> ScaleY (Format (?h 0)) \<noteq> 0 \<and>
       ShapeLine.Width (Line (?h 0)) \<noteq> None"
    by (simp add: resolvedShape_def exampleShape_def exampleEnv_def defaultPictureScale_def)
  from parseShapeOptions_frame [of exampleEnv ?h 0] set show ?thesis
    by auto
qed

section \<open>The anchor builder\<close>

subsection \<open>The outcomes of \<^verbatim>\<open>addDrawingShape\<close>\<close>

lemma addParagraphs_TxBody:
  "TxBody shape = Some body \<Longrightarrow>
   addParagraphs shape ps = shape\<lparr>TxBody := Some (body\<lparr>P := P body @ map shapeParagraph ps\<rparr>)\<rparr>"
proof (induction ps arbitrary: shape body)
  case Nil
  have "shape\<lparr>TxBody := TxBody shape\<rparr> = shape" by simp
  with Nil show ?case by simp
next
  case (Cons p ps)
  show ?case
    by (simp add: Cons.prems
        Cons.IH [of "shape\<lparr>TxBody := Some (body\<lparr>P := P body @ [shapeParagraph p]\<rparr>)\<rparr>"
                    "body\<lparr>P := P body @ [shapeParagraph p]\<rparr>"])
qed

text \<open>
  The description after the default paragraph has been written into it, and the anchor that
  a successful call appends, in closed form.
\<close>

definition withDefaultParagraph :: "string \<Rightarrow> Shape \<Rightarrow> Shape" where
  "withDefaultParagraph defaultFont s =
     (if length (Paragraph s) < 1
      then s\<lparr>Paragraph := [\<lparr>Font = Some \<lparr>Bold = False, Italic = False, Underline = ''none'',
                                           Family = defaultFont, Size = 11,
                                           Font.Color = ''000000''\<rparr>,
                             Text = '' ''\<rparr>]\<rparr>
      else s)"

definition shapeAnchor ::
  "env \<Rightarrow> Shape \<Rightarrow> go_int \<times> go_int \<times> go_int \<times> go_int \<times> go_int \<times> go_int \<Rightarrow> go_int \<Rightarrow> float64
     \<Rightarrow> bool \<Rightarrow> bool \<Rightarrow> xdrCellAnchor" where
  "shapeAnchor env s geometry cNvPrID lineWidth locked printObject =
     (case geometry of (colStart, rowStart, colEnd, rowEnd, x2, y2) \<Rightarrow>
        \<lparr>EditAs = Positioning (Format s),
         From = Some \<lparr>xlsxFrom.Col = colStart,
                      xlsxFrom.ColOff = OffsetX (Format s) * EMU env,
                      xlsxFrom.Row = rowStart,
                      xlsxFrom.RowOff = OffsetY (Format s) * EMU env\<rparr>,
         To = Some \<lparr>xlsxTo.Col = colEnd,
                    xlsxTo.ColOff = x2 * EMU env,
                    xlsxTo.Row = rowEnd,
                    xlsxTo.RowOff = y2 * EMU env\<rparr>,
         Sp = Some
           \<lparr>xdrSp.Macro = Shape.Macro s,
            NvSpPr = Some \<lparr>CNvPr = Some \<lparr>xlsxCNvPr.ID = cNvPrID,
                                          Name = ''Shape '' @ Itoa cNvPrID\<rparr>,
                           CNvSpPr = Some \<lparr>TxBox = True\<rparr>\<rparr>,
            SpPr = Some \<lparr>PrstGeom = \<lparr>Prst = Shape.Type s\<rparr>,
                         Ln = \<lparr>W = (if lineWidth \<noteq> 1 then ptToEMUs env lineWidth else 0)\<rparr>\<rparr>,
            Style = Some
              \<lparr>LnRef = setShapeRef (ShapeLine.Color (Line s)) 2,
               FillRef = setShapeRef
                 (if length (Fill.Color (Fill s)) = 1 then Fill.Color (Fill s) ! 0 else '''') 1,
               EffectRef = setShapeRef '''' 0,
               FontRef = Some \<lparr>aFontRef.Idx = ''minor'',
                                SchemeClr = Some \<lparr>Val = Some ''tx1''\<rparr>\<rparr>\<rparr>,
            TxBody = Some \<lparr>BodyPr = Some \<lparr>VertOverflow = ''clip'', HorzOverflow = ''clip'',
                                            Wrap = ''none'', RtlCol = False, Anchor = ''t''\<rparr>,
                           P = map shapeParagraph (Paragraph s)\<rparr>\<rparr>,
         ClientData = Some \<lparr>FLocksWithSheet = locked, FPrintsWithSheet = printObject\<rparr>\<rparr>)"

lemma addDrawingShape_cell_error:
  "CellNameToCoordinates env cell = Inl err \<Longrightarrow>
   addDrawingShape env f h sheet drawingXML cell opts = (f, h, Returned (Some err))"
  by (simp add: addDrawingShape_def)

lemma addDrawingShape_parse_error:
  "CellNameToCoordinates env cell = Inr (fromCol, fromRow) \<Longrightarrow>
   drawingParser env f drawingXML = Inl err \<Longrightarrow>
   addDrawingShape env f h sheet drawingXML cell opts = (f, h, Returned (Some err))"
  by (simp add: addDrawingShape_def Let_def split_def)

lemma addDrawingShape_width_nil:
  "CellNameToCoordinates env cell = Inr (fromCol, fromRow) \<Longrightarrow>
   drawingParser env f drawingXML = Inr (content, cNvPrID) \<Longrightarrow>
   ShapeLine.Width (Line (h opts)) = None \<Longrightarrow>
   addDrawingShape env f h sheet drawingXML cell opts = (f, h, Panicked)"
  by (simp add: addDrawingShape_def Let_def split_def)

lemma addDrawingShape_font_error:
  "CellNameToCoordinates env cell = Inr (fromCol, fromRow) \<Longrightarrow>
   drawingParser env f drawingXML = Inr (content, cNvPrID) \<Longrightarrow>
   ShapeLine.Width (Line (h opts)) = Some lineWidth \<Longrightarrow>
   GetDefaultFont env f = Inl err \<Longrightarrow>
   addDrawingShape env f h sheet drawingXML cell opts = (f, h, Returned (Some err))"
  by (simp add: addDrawingShape_def Let_def split_def)

lemma heap_default_paragraph:
  "(if length (Paragraph (h opts)) < 1
    then h(opts := (h opts)\<lparr>Paragraph :=
           [\<lparr>Font = Some \<lparr>Bold = False, Italic = False, Underline = ''none'',
                           Family = defaultFont, Size = 11, Font.Color = ''000000''\<rparr>,
             Text = '' ''\<rparr>]\<rparr>)
    else h) = h(opts := withDefaultParagraph defaultFont (h opts))"
  by (simp add: withDefaultParagraph_def)

lemma addDrawingShape_flag_nil:
  "CellNameToCoordinates env cell = Inr (fromCol, fromRow) \<Longrightarrow>
   drawingParser env f drawingXML = Inr (content, cNvPrID) \<Longrightarrow>
   ShapeLine.Width (Line (h opts)) = Some lineWidth \<Longrightarrow>
   GetDefaultFont env f = Inr defaultFont \<Longrightarrow>
   Locked (Format (h opts)) = None \<or> PrintObject (Format (h opts)) = None \<Longrightarrow>
   addDrawingShape env f h sheet drawingXML cell opts =
     (f, h(opts := withDefaultParagraph defaultFont (h opts)), Panicked)"
  unfolding addDrawingShape_def Let_def split_def heap_default_paragraph
  by (auto simp: withDefaultParagraph_def split: option.splits)

lemma addDrawingShape_commit:
  "CellNameToCoordinates env cell = Inr (fromCol, fromRow) \<Longrightarrow>
   drawingParser env f drawingXML = Inr (content, cNvPrID) \<Longrightarrow>
   ShapeLine.Width (Line (h opts)) = Some lineWidth \<Longrightarrow>
   GetDefaultFont env f = Inr defaultFont \<Longrightarrow>
   Locked (Format (h opts)) = Some locked \<Longrightarrow>
   PrintObject (Format (h opts)) = Some printObject \<Longrightarrow>
   addDrawingShape env f h sheet drawingXML cell opts =
     (f\<lparr>Drawings := (Drawings f)(drawingXML \<mapsto> content\<lparr>TwoCellAnchor :=
          TwoCellAnchor content @
          [shapeAnchor env (withDefaultParagraph defaultFont (h opts))
             (positionObjectPixels env f sheet fromCol fromRow
                (OffsetX (Format (h opts))) (OffsetY (Format (h opts)))
                (int_of_float64 (float64_of_uint (Shape.Width (h opts)) * ScaleX (Format (h opts))))
                (int_of_float64 (float64_of_uint (Height (h opts)) * ScaleY (Format (h opts)))))
             cNvPrID lineWidth locked printObject]\<rparr>)\<rparr>,
      h(opts := withDefaultParagraph defaultFont (h opts)), Returned None)"
  unfolding addDrawingShape_def Let_def split_def heap_default_paragraph
  by (simp add: withDefaultParagraph_def shapeAnchor_def split_def addParagraphs_TxBody)

lemma addDrawingShape_cases:
  assumes run: "addDrawingShape env f h sheet drawingXML cell opts = (f', h', r)"
  obtains
    (error) err where "r = Returned (Some err)" "f' = f" "h' = h"
  | (panic) "r = Panicked" "f' = f"
      "ShapeLine.Width (Line (h opts)) = None \<or> Locked (Format (h opts)) = None
         \<or> PrintObject (Format (h opts)) = None"
  | (commit) fromCol fromRow content cNvPrID lineWidth defaultFont locked printObject where
      "CellNameToCoordinates env cell = Inr (fromCol, fromRow)"
      "drawingParser env f drawingXML = Inr (content, cNvPrID)"
      "ShapeLine.Width (Line (h opts)) = Some lineWidth"
      "GetDefaultFont env f = Inr defaultFont"
      "Locked (Format (h opts)) = Some locked"
      "PrintObject (Format (h opts)) = Some printObject"
      "r = Returned None"
      "h' = h(opts := withDefaultParagraph defaultFont (h opts))"
      "f' = f\<lparr>Drawings := (Drawings f)(drawingXML \<mapsto> content\<lparr>TwoCellAnchor :=
          TwoCellAnchor content @
          [shapeAnchor env (withDefaultParagraph defaultFont (h opts))
             (positionObjectPixels env f sheet fromCol fromRow
                (OffsetX (Format (h opts))) (OffsetY (Format (h opts)))
                (int_of_float64 (float64_of_uint (Shape.Width (h opts)) * ScaleX (Format (h opts))))
                (int_of_float64 (float64_of_uint (Height (h opts)) * ScaleY (Format (h opts)))))
             cNvPrID lineWidth locked printObject]\<rparr>)\<rparr>"
proof (cases "CellNameToCoordinates env cell")
  case (Inl err)
  from addDrawingShape_cell_error [where f = f and h = h and sheet = sheet and drawingXML = drawingXML and opts = opts, OF Inl] run error
  show ?thesis by simp
next
  case (Inr cr)
  obtain fromCol fromRow where cell: "CellNameToCoordinates env cell = Inr (fromCol, fromRow)"
    using Inr by (cases cr) simp
  show ?thesis
  proof (cases "drawingParser env f drawingXML")
    case (Inl err)
    from addDrawingShape_parse_error [where h = h and sheet = sheet and opts = opts, OF cell Inl] run error
    show ?thesis by simp
  next
    case (Inr ci)
    obtain content cNvPrID where doc: "drawingParser env f drawingXML = Inr (content, cNvPrID)"
      using Inr by (cases ci) simp
    show ?thesis
    proof (cases "ShapeLine.Width (Line (h opts))")
      case None
      from addDrawingShape_width_nil [where h = h and sheet = sheet and opts = opts, OF cell doc None] run panic None
      show ?thesis by simp
    next
      case (Some lineWidth)
      show ?thesis
      proof (cases "GetDefaultFont env f")
        case (Inl err)
        from addDrawingShape_font_error [where h = h and sheet = sheet and opts = opts, OF cell doc Some Inl] run error
        show ?thesis by simp
      next
        case (Inr defaultFont)
        show ?thesis
        proof (cases "Locked (Format (h opts)) = None \<or> PrintObject (Format (h opts)) = None")
          case True
          from addDrawingShape_flag_nil [where h = h and sheet = sheet and opts = opts, OF cell doc Some Inr True] run panic True
          show ?thesis by simp
        next
          case False
          then obtain locked printObject where
            flags: "Locked (Format (h opts)) = Some locked"
                   "PrintObject (Format (h opts)) = Some printObject"
            by auto
          from addDrawingShape_commit [where h = h and sheet = sheet and opts = opts, OF cell doc Some Inr flags] run
          have "r = Returned None"
            "h' = h(opts := withDefaultParagraph defaultFont (h opts))"
            "f' = f\<lparr>Drawings := (Drawings f)(drawingXML \<mapsto> content\<lparr>TwoCellAnchor :=
               TwoCellAnchor content @
               [shapeAnchor env (withDefaultParagraph defaultFont (h opts))
                  (positionObjectPixels env f sheet fromCol fromRow
                     (OffsetX (Format (h opts))) (OffsetY (Format (h opts)))
                     (int_of_float64 (float64_of_uint (Shape.Width (h opts)) * ScaleX (Format (h opts))))
                     (int_of_float64 (float64_of_uint (Height (h opts)) * ScaleY (Format (h opts)))))
                  cNvPrID lineWidth locked printObject]\<rparr>)\<rparr>"
            by simp_all
          with cell doc Some Inr flags commit show ?thesis by blast
        qed
      qed
    qed
  qed
qed

lemma withDefaultParagraph_fields:
  "Format (withDefaultParagraph d s) = Format s"
  "Fill (withDefaultParagraph d s) = Fill s"
  "Line (withDefaultParagraph d s) = Line s"
  "Shape.Macro (withDefaultParagraph d s) = Shape.Macro s"
  "Shape.Type (withDefaultParagraph d s) = Shape.Type s"
  by (simp_all add: withDefaultParagraph_def)

subsection \<open>A concrete call of the builder\<close>

definition exampleResolved :: heap where
  "exampleResolved = (\<lambda>a. resolvedShape exampleEnv exampleShape)"

lemma exampleResolved_fields:
  "ShapeLine.Width (Line (exampleResolved a)) = Some 2"
  "Locked (Format (exampleResolved a)) = Some False"
  "PrintObject (Format (exampleResolved a)) = Some True"
  "Shape.Width (exampleResolved a) = 180"
  "Height (exampleResolved a) = 40"
  "ScaleX (Format (exampleResolved a)) = 1"
  "ScaleY (Format (exampleResolved a)) = 1"
  "OffsetX (Format (exampleResolved a)) = 0"
  "OffsetY (Format (exampleResolved a)) = 0"
  "Positioning (Format (exampleResolved a)) = ''''"
  "Fill.Color (Fill (exampleResolved a)) = [''8EB9FF'']"
  "Paragraph (exampleResolved a) = Paragraph exampleShape"
  by (simp_all add: exampleResolved_def resolvedShape_def exampleShape_def defaultPictureScale_def)

lemma exampleEnv_fields:
  "CellNameToCoordinates exampleEnv ''G6'' = Inr (7, 6)"
  "CellNameToCoordinates exampleEnv ''6G'' = Inl (ErrCollaborator ''invalid cell name'')"
  "GetDefaultFont exampleEnv f = Inr ''Calibri''"
  "EMU exampleEnv = 9525"
  "countDrawings exampleEnv f = 0"
  "positionObjectPixels exampleEnv f sheet col row x1 y1 width height =
     (col - 1, row - 1, col - 1 + (x1 + width) div 64, row - 1 + (y1 + height) div 20,
      (x1 + width) mod 64, (y1 + height) mod 20)"
  by (simp_all add: exampleEnv_def)

lemma exampleFile_drawingParser:
  "drawingParser env exampleFile path = Inr (\<lparr>TwoCellAnchor = []\<rparr>, 1)"
  by (simp add: drawingParser_def exampleFile_def)

lemma example_addDrawingShape:
  "\<exists>f' h'. addDrawingShape exampleEnv exampleFile exampleResolved ''Sheet1''
     ''xl/drawings/drawing1.xml'' ''G6'' 0 = (f', h', Returned None)"
  using addDrawingShape_commit [where h = exampleResolved and opts = 0 and sheet = "''Sheet1''"
      and drawingXML = "''xl/drawings/drawing1.xml''",
      OF exampleEnv_fields(1) exampleFile_drawingParser
      exampleResolved_fields(1) exampleEnv_fields(3) exampleResolved_fields(2)
      exampleResolved_fields(3)]
  by blast

subsection \<open>The text runs\<close>

lemma inStrSlice_found:
  assumes "x \<in> set a" "length a < 2 ^ 64 - 1"
  shows "inStrSlice a x True \<noteq> - 1 \<and> a ! unat (inStrSlice a x True) = x"
proof -
  from assms(1) obtain j where j: "j < length a" "a ! j = x"
    by (auto simp: in_set_conv_nth)
  then have "find (\<lambda>i. x = a ! i) [0..<length a] \<noteq> None"
    by (auto simp: find_None_iff)
  then obtain i where i: "find (\<lambda>i. x = a ! i) [0..<length a] = Some i"
    by auto
  then have bound: "i < length a" and hit: "x = a ! i"
    by (auto simp: find_Some_iff)
  from bound assms(2) have small: "i < 2 ^ 64 - 1" by simp
  then have un: "unat (word_of_nat i :: 64 word) = i"
    by (simp add: unat_of_nat)
  have "unat (- 1 :: 64 word) = 2 ^ 64 - 1"
    by (simp add: unsigned_minus_1_eq_mask mask_eq_exp_minus_1)
  with un small have "(word_of_nat i :: 64 word) \<noteq> - 1"
    by (metis nat_neq_iff)
  with i un hit show ?thesis
    by (simp add: inStrSlice_def)
qed

lemma inStrSlice_missing:
  assumes "x \<notin> set a"
  shows "inStrSlice a x True = - 1"
proof -
  have "find (\<lambda>i. x = a ! i) [0..<length a] = None"
    using assms by (auto simp: find_None_iff)
  then show ?thesis by (simp add: inStrSlice_def)
qed

lemma length_supportedDrawingUnderlineTypes: "length supportedDrawingUnderlineTypes = 18"
  by (simp add: supportedDrawingUnderlineTypes_def)

text \<open>The paragraph markup of a run, in closed form.\<close>

lemma shapeParagraph_eq:
  "shapeParagraph p =
     (let font = (case Font p of
                    None \<Rightarrow> \<lparr>Bold = False, Italic = False, Underline = '''', Family = '''',
                             Size = 0, Font.Color = ''''\<rparr>
                  | Some fnt \<Rightarrow> fnt);
          srgbClr = filter (\<lambda>c. c \<noteq> CHR ''#'') (map toUpperChar (Font.Color font))
      in \<lparr>aP.R = Some
            \<lparr>RPr = \<lparr>I = Italic font,
                    aRPr.B = Bold font,
                    aRPr.Lang = ''en-US'',
                    AltLang = ''en-US'',
                    U = (if Underline font \<in> set supportedDrawingUnderlineTypes
                         then Underline font else ''none''),
                    Sz = Size font * 100,
                    Latin = Some \<lparr>Typeface = Family font\<rparr>,
                    SolidFill = (if length srgbClr = 6
                                 then Some \<lparr>aSolidFill.SrgbClr = Some \<lparr>Val = Some srgbClr\<rparr>\<rparr>
                                 else None)\<rparr>,
             T = (if Text p = '''' then '' '' else Text p)\<rparr>,
          EndParaRPr = Some \<lparr>aEndParaRPr.Lang = ''en-US''\<rparr>\<rparr>)"
proof -
  define font where "font = (case Font p of
      None \<Rightarrow> \<lparr>Bold = False, Italic = False, Underline = '''', Family = '''',
               Size = 0, Font.Color = ''''\<rparr>
    | Some fnt \<Rightarrow> fnt)"
  have u: "(if inStrSlice supportedDrawingUnderlineTypes (Underline font) True \<noteq> - 1
            then supportedDrawingUnderlineTypes
                   ! unat (inStrSlice supportedDrawingUnderlineTypes (Underline font) True)
            else ''none'')
           = (if Underline font \<in> set supportedDrawingUnderlineTypes
              then Underline font else ''none'')"
  proof (cases "Underline font \<in> set supportedDrawingUnderlineTypes")
    case True
    from inStrSlice_found [OF True] show ?thesis
      by (simp add: length_supportedDrawingUnderlineTypes True)
  next
    case False
    from inStrSlice_missing [OF False] show ?thesis
      by (simp add: False)
  qed
  show ?thesis
    unfolding shapeParagraph_def Let_def font_def [symmetric] u
    by (simp add: ReplaceAll_hash ToUpper_def)
qed






text \<open>
  Claim C5. When a call succeeds on a description without paragraphs, the text body has
  exactly one run: the text is a single space, the underline is \<open>none\<close>, the size is 1100,
  the colour is black and the family is that of the default-font provider. Otherwise the
  text body has the markup of each given paragraph, in order. In the markup of a paragraph
  the underline is the requested one when the table of supported styles has it and \<open>none\<close>
  otherwise (also for a run without a font), an empty text becomes a single space, and the
  size is 100 times the requested size.
\<close>

theorem addDrawingShape_text_runs:
  assumes "addDrawingShape env f h sheet drawingXML cell opts = (f', h', Returned None)"
  shows "\<exists>content cNvPrID a sp body defaultFont.
      drawingParser env f drawingXML = Inr (content, cNvPrID) \<and>
      Drawings f' drawingXML = Some (content\<lparr>TwoCellAnchor := TwoCellAnchor content @ [a]\<rparr>) \<and>
      Sp a = Some sp \<and> TxBody sp = Some body \<and>
      GetDefaultFont env f = Inr defaultFont \<and>
      (if Paragraph (h opts) = []
       then P body =
         [\<lparr>aP.R = Some
             \<lparr>RPr = \<lparr>I = False, aRPr.B = False, aRPr.Lang = ''en-US'', AltLang = ''en-US'',
                     U = ''none'', Sz = 1100, Latin = Some \<lparr>Typeface = defaultFont\<rparr>,
                     SolidFill = Some \<lparr>aSolidFill.SrgbClr = Some \<lparr>Val = Some ''000000''\<rparr>\<rparr>\<rparr>,
              T = '' ''\<rparr>,
           EndParaRPr = Some \<lparr>aEndParaRPr.Lang = ''en-US''\<rparr>\<rparr>]
       else P body = map shapeParagraph (Paragraph (h opts))) \<and>
      (\<forall>p. \<exists>r. aP.R (shapeParagraph p) = Some r \<and>
         T r = (if Text p = '''' then '' '' else Text p) \<and>
         (case Font p of
            None \<Rightarrow> U (RPr r) = ''none'' \<and> Sz (RPr r) = 0 * 100
          | Some fnt \<Rightarrow>
              U (RPr r) = (if Underline fnt \<in> set supportedDrawingUnderlineTypes
                           then Underline fnt else ''none'') \<and>
              Sz (RPr r) = Size fnt * 100))"
  using assms
proof (cases rule: addDrawingShape_cases)
  case (commit fromCol fromRow content cNvPrID lineWidth defaultFont locked printObject)
  obtain colStart rowStart colEnd rowEnd x2 y2 where geometry:
    "positionObjectPixels env f sheet fromCol fromRow
       (OffsetX (Format (h opts))) (OffsetY (Format (h opts)))
       (int_of_float64 (float64_of_uint (Shape.Width (h opts)) * ScaleX (Format (h opts))))
       (int_of_float64 (float64_of_uint (Height (h opts)) * ScaleY (Format (h opts))))
     = (colStart, rowStart, colEnd, rowEnd, x2, y2)"
    by (metis prod_cases3)
  have runs: "\<forall>p. \<exists>r. aP.R (shapeParagraph p) = Some r \<and>
         T r = (if Text p = '''' then '' '' else Text p) \<and>
         (case Font p of
            None \<Rightarrow> U (RPr r) = ''none'' \<and> Sz (RPr r) = 0 * 100
          | Some fnt \<Rightarrow>
              U (RPr r) = (if Underline fnt \<in> set supportedDrawingUnderlineTypes
                           then Underline fnt else ''none'') \<and>
              Sz (RPr r) = Size fnt * 100)"
    by (simp add: shapeParagraph_eq Let_def supportedDrawingUnderlineTypes_def
        split: option.splits)
  have body: "if Paragraph (h opts) = []
       then map shapeParagraph (Paragraph (withDefaultParagraph defaultFont (h opts))) =
         [\<lparr>aP.R = Some
             \<lparr>RPr = \<lparr>I = False, aRPr.B = False, aRPr.Lang = ''en-US'', AltLang = ''en-US'',
                     U = ''none'', Sz = 1100, Latin = Some \<lparr>Typeface = defaultFont\<rparr>,
                     SolidFill = Some \<lparr>aSolidFill.SrgbClr = Some \<lparr>Val = Some ''000000''\<rparr>\<rparr>\<rparr>,
              T = '' ''\<rparr>,
           EndParaRPr = Some \<lparr>aEndParaRPr.Lang = ''en-US''\<rparr>\<rparr>]
       else map shapeParagraph (Paragraph (withDefaultParagraph defaultFont (h opts)))
         = map shapeParagraph (Paragraph (h opts))"
    by (simp add: withDefaultParagraph_def shapeParagraph_eq Let_def
        supportedDrawingUnderlineTypes_def toUpperChar_def)
  show ?thesis
    apply (rule exI [of _ content], rule exI [of _ cNvPrID])
    apply (rule exI [of _ "shapeAnchor env (withDefaultParagraph defaultFont (h opts))
             (colStart, rowStart, colEnd, rowEnd, x2, y2) cNvPrID lineWidth locked printObject"])
    using commit geometry runs body
    by (simp add: shapeAnchor_def)
qed simp_all

theorem addDrawingShape_text_runs_witness:
  "\<exists>f' h' content a sp body.
     addDrawingShape exampleEnv exampleFile exampleResolved ''Sheet1''
       ''xl/drawings/drawing1.xml'' ''G6'' 0 = (f', h', Returned None) \<and>
     Drawings f' ''xl/drawings/drawing1.xml''
       = Some (content\<lparr>TwoCellAnchor := TwoCellAnchor content @ [a]\<rparr>) \<and>
     Sp a = Some sp \<and> TxBody sp = Some body \<and>
     P body = map shapeParagraph (Paragraph exampleShape)"
proof -
  from example_addDrawingShape obtain f' h' where
    run: "addDrawingShape exampleEnv exampleFile exampleResolved ''Sheet1''
       ''xl/drawings/drawing1.xml'' ''G6'' 0 = (f', h', Returned None)"
    by blast
  have given: "Paragraph (exampleResolved 0) \<noteq> []"
    by (simp add: exampleResolved_fields exampleShape_def)
  from addDrawingShape_text_runs [OF run] given run show ?thesis
    by (auto simp: exampleResolved_fields)
qed

subsection \<open>The geometry of the anchor\<close>



subsection \<open>The stroke width and the fill reference\<close>

text \<open>
  The field \<^verbatim>\<open>SpPr.Ln\<close> of the payload is a structure, not a pointer: it starts at the zero
  value, the stroke width 0 of a payload that has no explicit stroke width, and
  \<^verbatim>\<open>addDrawingShape\<close> assigns it the converted line width under the guard
  \<^verbatim>\<open>*opts.Line.Width != 1\<close>. The converter \<^verbatim>\<open>ptToEMUs\<close> is a parameter.
\<close>

lemma single_color:
  "(if length (colors :: string list) = 1 then colors ! 0 else '''')
     = (case colors of [] \<Rightarrow> '''' | c # cs \<Rightarrow> if cs = [] then c else '''')"
  by (cases colors) auto

lemma shapeAnchor_stroke_fill:
  "\<exists>sp spPr st.
     Sp (shapeAnchor env s geometry cNvPrID lineWidth locked printObject) = Some sp \<and>
     SpPr sp = Some spPr \<and> Style sp = Some st \<and>
     Ln spPr = \<lparr>W = (if lineWidth \<noteq> 1 then ptToEMUs env lineWidth else 0)\<rparr> \<and>
     FillRef st = setShapeRef (case Fill.Color (Fill s) of
                                 [] \<Rightarrow> ''''
                               | c # cs \<Rightarrow> if cs = [] then c else '''') 1"
  unfolding shapeAnchor_def single_color
  by (simp add: split_def)

text \<open>
  Claim C8. In the payload of a successful call the stroke width is assigned, to the
  resolved line width converted by \<^verbatim>\<open>ptToEMUs\<close>, exactly when the resolved line width is
  not 1, and is otherwise the zero value of a payload without stroke width. Hence, for
  every converter that gives the resolved line width a stroke width other than zero, the
  payload has an explicit stroke width if and only if the resolved line width is not 1.
  The fill reference is the style reference, at index 1, of the only entry of the fill
  colour list when the list has exactly one entry and of the empty colour otherwise.
\<close>

theorem addDrawingShape_stroke_and_fill:
  assumes "addDrawingShape env f h sheet drawingXML cell opts = (f', h', Returned None)"
  shows "\<exists>content cNvPrID a sp spPr st lineWidth.
      drawingParser env f drawingXML = Inr (content, cNvPrID) \<and>
      Drawings f' drawingXML = Some (content\<lparr>TwoCellAnchor := TwoCellAnchor content @ [a]\<rparr>) \<and>
      Sp a = Some sp \<and> SpPr sp = Some spPr \<and> Style sp = Some st \<and>
      ShapeLine.Width (Line (h opts)) = Some lineWidth \<and>
      Ln spPr = (if lineWidth \<noteq> 1 then \<lparr>W = ptToEMUs env lineWidth\<rparr> else \<lparr>W = 0\<rparr>) \<and>
      (ptToEMUs env lineWidth \<noteq> 0 \<longrightarrow> (W (Ln spPr) \<noteq> 0 \<longleftrightarrow> lineWidth \<noteq> 1)) \<and>
      FillRef st = setShapeRef (if length (Fill.Color (Fill (h opts))) = 1
                                then Fill.Color (Fill (h opts)) ! 0 else '''') 1"
  using assms
proof (cases rule: addDrawingShape_cases)
  case (commit fromCol fromRow content cNvPrID lineWidth defaultFont locked printObject)
  obtain colStart rowStart colEnd rowEnd x2 y2 where geometry:
    "positionObjectPixels env f sheet fromCol fromRow
       (OffsetX (Format (h opts))) (OffsetY (Format (h opts)))
       (int_of_float64 (float64_of_uint (Shape.Width (h opts)) * ScaleX (Format (h opts))))
       (int_of_float64 (float64_of_uint (Height (h opts)) * ScaleY (Format (h opts))))
     = (colStart, rowStart, colEnd, rowEnd, x2, y2)"
    by (metis prod_cases3)
  from shapeAnchor_stroke_fill [of env "withDefaultParagraph defaultFont (h opts)"
      "(colStart, rowStart, colEnd, rowEnd, x2, y2)" cNvPrID lineWidth locked printObject]
  obtain sp spPr st where payload:
    "Sp (shapeAnchor env (withDefaultParagraph defaultFont (h opts))
           (colStart, rowStart, colEnd, rowEnd, x2, y2) cNvPrID lineWidth locked printObject)
       = Some sp"
    "SpPr sp = Some spPr" "Style sp = Some st"
    "Ln spPr = \<lparr>W = (if lineWidth \<noteq> 1 then ptToEMUs env lineWidth else 0)\<rparr>"
    "FillRef st = setShapeRef (case Fill.Color (Fill (h opts)) of
                                  [] \<Rightarrow> ''''
                                | c # cs \<Rightarrow> if cs = [] then c else '''') 1"
    by (auto simp: withDefaultParagraph_fields)
  have stroke: "Ln spPr = (if lineWidth \<noteq> 1 then \<lparr>W = ptToEMUs env lineWidth\<rparr> else \<lparr>W = 0\<rparr>)"
    "ptToEMUs env lineWidth \<noteq> 0 \<longrightarrow> (W (Ln spPr) \<noteq> 0 \<longleftrightarrow> lineWidth \<noteq> 1)"
    unfolding payload(4) by simp_all
  have fill: "FillRef st = setShapeRef (if length (Fill.Color (Fill (h opts))) = 1
                                then Fill.Color (Fill (h opts)) ! 0 else '''') 1"
    unfolding payload(5) single_color by (rule refl)
  show ?thesis
    apply (rule exI [of _ content], rule exI [of _ cNvPrID])
    apply (rule exI [of _ "shapeAnchor env (withDefaultParagraph defaultFont (h opts))
             (colStart, rowStart, colEnd, rowEnd, x2, y2) cNvPrID lineWidth locked printObject"])
    apply (rule exI [of _ sp], rule exI [of _ spPr], rule exI [of _ st])
    apply (rule exI [of _ lineWidth])
    using commit geometry payload(1,2,3) stroke fill
    by simp
qed simp_all

theorem addDrawingShape_stroke_and_fill_witness:
  "\<exists>f' h' content a sp spPr st.
     addDrawingShape exampleEnv exampleFile exampleResolved ''Sheet1''
       ''xl/drawings/drawing1.xml'' ''G6'' 0 = (f', h', Returned None) \<and>
     Drawings f' ''xl/drawings/drawing1.xml''
       = Some (content\<lparr>TwoCellAnchor := TwoCellAnchor content @ [a]\<rparr>) \<and>
     Sp a = Some sp \<and> SpPr sp = Some spPr \<and> Style sp = Some st \<and>
     ptToEMUs exampleEnv 2 = 25400 \<and>
     Ln spPr = \<lparr>W = 25400\<rparr> \<and>
     FillRef st = Some \<lparr>aRef.Idx = 1, ScrgbClr = None,
                        aRef.SrgbClr = Some \<lparr>Val = Some ''8EB9FF''\<rparr>\<rparr>"
proof -
  from example_addDrawingShape obtain f' h' where
    run: "addDrawingShape exampleEnv exampleFile exampleResolved ''Sheet1''
       ''xl/drawings/drawing1.xml'' ''G6'' 0 = (f', h', Returned None)"
    by blast
  have stroke: "ptToEMUs exampleEnv 2 = 25400"
    by (simp add: exampleEnv_def int_of_float64_def)
  have fill: "setShapeRef ''8EB9FF'' 1 = Some \<lparr>aRef.Idx = 1, ScrgbClr = None,
                        aRef.SrgbClr = Some \<lparr>Val = Some ''8EB9FF''\<rparr>\<rparr>"
    by (simp add: setShapeRef_def ReplaceAll_hash ToUpper_def toUpperChar_def)
  from addDrawingShape_stroke_and_fill [OF run] run show ?thesis
    by (clarsimp simp: exampleResolved_fields stroke fill) blast
qed

section \<open>The orchestrator\<close>

subsection \<open>The drawing part of a sheet\<close>

text \<open>
  The relationship part of a sheet, and the drawing part of a sheet as \<^verbatim>\<open>AddShape\<close> finds
  or creates it: the file after the bookkeeping, the index of the part and its path.
\<close>

definition sheetRels :: "File \<Rightarrow> string \<Rightarrow> string" where
  "sheetRels f sheet =
     ''xl/worksheets/_rels/'' @ TrimPrefix (fst (getSheetXMLPath f sheet)) ''xl/worksheets/''
       @ ''.rels''"

definition sheetDrawing :: "env \<Rightarrow> File \<Rightarrow> string \<Rightarrow> xlsxWorksheet \<Rightarrow> File \<times> go_int \<times> string" where
  "sheetDrawing env f sheet ws =
     (case Drawing ws of
        Some drawing \<Rightarrow>
          (f,
           fst (Atoi (TrimSuffix
             (TrimPrefix (getSheetRelationshipsTargetByID f sheet (RID drawing))
                ''../drawings/drawing'') ''.xml'')),
           ReplaceAll (getSheetRelationshipsTargetByID f sheet (RID drawing)) ''..'' ''xl'')
      | None \<Rightarrow>
          (addSheetNameSpace
             (addSheetDrawing
                (fst (addRels f (sheetRels f sheet) (SourceRelationshipDrawingML env)
                        (''../drawings/drawing'' @ Itoa (countDrawings env f + 1) @ ''.xml'') ''''))
                sheet
                (snd (addRels f (sheetRels f sheet) (SourceRelationshipDrawingML env)
                        (''../drawings/drawing'' @ Itoa (countDrawings env f + 1) @ ''.xml'') '''')))
             sheet (SourceRelationship env),
           countDrawings env f + 1,
           ''xl/drawings/drawing'' @ Itoa (countDrawings env f + 1) @ ''.xml''))"

lemma AddShape_nil:
  "AddShape env f h sheet cell None = (f, h, Returned (Some ErrParameterInvalid))"
  by (simp add: AddShape_def parseShapeOptions_None)

lemma AddShape_unknown_sheet:
  "Sheet f sheet = None \<Longrightarrow>
   AddShape env f h sheet cell (Some a) =
     (f, h(a := resolvedShape env (h a)), Returned (Some (ErrSheetNotExist sheet)))"
  by (simp add: AddShape_def parseShapeOptions_Some workSheetReader_def)

lemma addContentTypePart_split:
  "(case addContentTypePart f i k of (f3, err) \<Rightarrow> (f3, h2, Returned err))
     = (fst (addContentTypePart f i k), h2, Returned None)"
  by (simp add: split_def addContentTypePart_def)

lemma addContentTypePart_None: "snd (addContentTypePart f i k) = None"
  by (simp add: addContentTypePart_def)

lemma AddShape_Some:
  assumes "Sheet f sheet = Some ws"
  shows "AddShape env f h sheet cell (Some a) =
     (case addDrawingShape env (fst (sheetDrawing env f sheet ws))
             (h(a := resolvedShape env (h a))) sheet
             (snd (snd (sheetDrawing env f sheet ws))) cell a of
        (f2, h2, r) \<Rightarrow>
          if r = Returned None
          then (fst (addContentTypePart f2 (fst (snd (sheetDrawing env f sheet ws))) ''drawings''),
                h2, Returned None)
          else (f2, h2, r))"
proof (cases "Drawing ws")
  case None
  show ?thesis
    unfolding AddShape_def parseShapeOptions_Some prod.case sum.case workSheetReader_def assms
      option.case Let_def addContentTypePart_split addContentTypePart_None sheetDrawing_def sheetRels_def None
      split_def fst_conv snd_conv
    by (rule refl)
next
  case (Some drawing)
  show ?thesis
    unfolding AddShape_def parseShapeOptions_Some prod.case sum.case workSheetReader_def assms
      option.case Let_def addContentTypePart_split addContentTypePart_None sheetDrawing_def sheetRels_def Some
      split_def fst_conv snd_conv
    by (rule refl)
qed

lemma addContentTypePart_fields:
  "Drawings (fst (addContentTypePart f index kind)) = Drawings f"
  "Sheet (fst (addContentTypePart f index kind)) = Sheet f"
  "Relationships (fst (addContentTypePart f index kind)) = Relationships f"
  "sheetMap (fst (addContentTypePart f index kind)) = sheetMap f"
  "Pkg (fst (addContentTypePart f index kind)) = Pkg f"
  "xmlAttr (fst (addContentTypePart f index kind)) = xmlAttr f"
  by (simp_all add: addContentTypePart_def)

lemma getSheetRelationshipsTargetByID_eq:
  "getSheetRelationshipsTargetByID f sheet rID =
     (case Relationships f (sheetRels f sheet) of
        None \<Rightarrow> ''''
      | Some rels \<Rightarrow>
          (case find (\<lambda>r. xlsxRelationship.ID r = rID) rels of
             None \<Rightarrow> ''''
           | Some r \<Rightarrow> Target r))"
  by (simp add: getSheetRelationshipsTargetByID_def sheetRels_def split_def Let_def)

lemma sheetRels_cong: "sheetMap g = sheetMap f \<Longrightarrow> sheetRels g sheet = sheetRels f sheet"
  by (simp add: sheetRels_def getSheetXMLPath_def)

lemma target_cong:
  "sheetMap g = sheetMap f \<Longrightarrow> Relationships g = Relationships f \<Longrightarrow>
   getSheetRelationshipsTargetByID g sheet rID = getSheetRelationshipsTargetByID f sheet rID"
  unfolding getSheetRelationshipsTargetByID_eq by (simp add: sheetRels_cong [of g f])

lemma sheetDrawing_existing:
  "Drawing ws = Some drawing \<Longrightarrow>
   fst (sheetDrawing env f sheet ws) = f \<and>
   snd (snd (sheetDrawing env f sheet ws))
     = ReplaceAll (getSheetRelationshipsTargetByID f sheet (RID drawing)) ''..'' ''xl''"
  by (simp add: sheetDrawing_def)

subsection \<open>A new relationship resolves to its target\<close>

lemma foldr_max_ge: "x \<in> set xs \<Longrightarrow> x \<le> foldr max xs (0::nat)"
  by (induction xs) auto

lemma find_append_skip: "\<forall>x\<in>set xs. \<not> p x \<Longrightarrow> find p (xs @ ys) = find p ys"
  by (induction xs) auto

lemma find_new_relationship:
  "find (\<lambda>r. xlsxRelationship.ID r = Suc (foldr max (map xlsxRelationship.ID rels) 0))
     (rels @ [\<lparr>xlsxRelationship.ID = Suc (foldr max (map xlsxRelationship.ID rels) 0),
               xlsxRelationship.Type = kind, Target = target, TargetMode = mode\<rparr>])
   = Some \<lparr>xlsxRelationship.ID = Suc (foldr max (map xlsxRelationship.ID rels) 0),
           xlsxRelationship.Type = kind, Target = target, TargetMode = mode\<rparr>"
proof -
  have "\<forall>r\<in>set rels. xlsxRelationship.ID r \<noteq> Suc (foldr max (map xlsxRelationship.ID rels) 0)"
  proof
    fix r assume "r \<in> set rels"
    then have "xlsxRelationship.ID r \<in> set (map xlsxRelationship.ID rels)" by simp
    from foldr_max_ge [OF this] show
      "xlsxRelationship.ID r \<noteq> Suc (foldr max (map xlsxRelationship.ID rels) 0)"
      by simp
  qed
  then show ?thesis by (simp add: find_append_skip)
qed

lemma sheetDrawing_new:
  assumes "Sheet f sheet = Some ws" "Drawing ws = None"
  shows "\<exists>rID.
     Sheet (fst (sheetDrawing env f sheet ws)) sheet = Some (ws\<lparr>Drawing := Some \<lparr>RID = rID\<rparr>\<rparr>) \<and>
     getSheetRelationshipsTargetByID (fst (sheetDrawing env f sheet ws)) sheet rID
       = ''../drawings/drawing'' @ Itoa (countDrawings env f + 1) @ ''.xml'' \<and>
     Drawings (fst (sheetDrawing env f sheet ws)) = Drawings f \<and>
     Pkg (fst (sheetDrawing env f sheet ws)) = Pkg f \<and>
     ContentTypes (fst (sheetDrawing env f sheet ws)) = ContentTypes f \<and>
     sheetMap (fst (sheetDrawing env f sheet ws)) = sheetMap f \<and>
     snd (snd (sheetDrawing env f sheet ws))
       = ''xl/drawings/drawing'' @ Itoa (countDrawings env f + 1) @ ''.xml''"
proof -
  define target where "target = ''../drawings/drawing'' @ Itoa (countDrawings env f + 1) @ ''.xml''"
  define rels where
    "rels = (case Relationships f (sheetRels f sheet) of None \<Rightarrow> [] | Some rs \<Rightarrow> rs)"
  define rID where "rID = Suc (foldr max (map xlsxRelationship.ID rels) 0)"
  define fa where
    "fa = fst (addRels f (sheetRels f sheet) (SourceRelationshipDrawingML env) target '''')"
  have rid: "snd (addRels f (sheetRels f sheet) (SourceRelationshipDrawingML env) target '''')
      = rID"
    by (simp add: addRels_def Let_def rID_def rels_def)
  have fa: "Relationships fa (sheetRels f sheet) =
      Some (rels @ [\<lparr>xlsxRelationship.ID = rID,
                      xlsxRelationship.Type = SourceRelationshipDrawingML env,
                      Target = target, TargetMode = ''''\<rparr>])"
    "Sheet fa = Sheet f" "sheetMap fa = sheetMap f" "Drawings fa = Drawings f"
    "Pkg fa = Pkg f" "ContentTypes fa = ContentTypes f"
    by (simp_all add: fa_def addRels_def Let_def rID_def rels_def)
  define fb where "fb = addSheetDrawing fa sheet rID"
  have fb: "Relationships fb = Relationships fa"
    "Sheet fb sheet = Some (ws\<lparr>Drawing := Some \<lparr>RID = rID\<rparr>\<rparr>)"
    "sheetMap fb = sheetMap f" "Drawings fb = Drawings f"
    "Pkg fb = Pkg f" "ContentTypes fb = ContentTypes f"
    using assms(1) fa by (simp_all add: fb_def addSheetDrawing_def)
  define fc where "fc = addSheetNameSpace fb sheet (SourceRelationship env)"
  have fc: "Relationships fc = Relationships fa"
    "Sheet fc sheet = Some (ws\<lparr>Drawing := Some \<lparr>RID = rID\<rparr>\<rparr>)"
    "sheetMap fc = sheetMap f" "Drawings fc = Drawings f"
    "Pkg fc = Pkg f" "ContentTypes fc = ContentTypes f"
    using fb by (simp_all add: fc_def addSheetNameSpace_def)
  have eq: "fst (sheetDrawing env f sheet ws) = fc"
    unfolding sheetDrawing_def target_def [symmetric] assms(2) option.case fst_conv rid
    by (simp only: fc_def fb_def fa_def)
  have path: "snd (snd (sheetDrawing env f sheet ws))
       = ''xl/drawings/drawing'' @ Itoa (countDrawings env f + 1) @ ''.xml''"
    unfolding sheetDrawing_def assms(2) option.case snd_conv by (rule refl)
  have found: "find (\<lambda>r. xlsxRelationship.ID r = rID)
     (rels @ [\<lparr>xlsxRelationship.ID = rID,
               xlsxRelationship.Type = SourceRelationshipDrawingML env,
               Target = target, TargetMode = ''''\<rparr>])
     = Some \<lparr>xlsxRelationship.ID = rID,
           xlsxRelationship.Type = SourceRelationshipDrawingML env,
           Target = target, TargetMode = ''''\<rparr>"
    unfolding rID_def by (rule find_new_relationship)
  have resolve: "getSheetRelationshipsTargetByID fc sheet rID = target"
    unfolding getSheetRelationshipsTargetByID_eq sheetRels_cong [OF fc(3)] fc(1) fa(1)
    by (simp add: found)
  have "Sheet fc sheet = Some (ws\<lparr>Drawing := Some \<lparr>RID = rID\<rparr>\<rparr>) \<and>
        getSheetRelationshipsTargetByID fc sheet rID = target \<and>
        Drawings fc = Drawings f \<and> Pkg fc = Pkg f \<and> ContentTypes fc = ContentTypes f \<and>
        sheetMap fc = sheetMap f"
    using fc resolve by simp
  then show ?thesis
    unfolding eq path target_def by (intro exI [of _ rID]) simp
qed

subsection \<open>The path of a new drawing part\<close>

lemma digit_no_dot: "n < 10 \<Longrightarrow> ''0123456789'' ! n \<noteq> CHR ''.''"
  by (auto simp: less_Suc_eq eval_nat_numeral)

lemma digits10_no_dot: "CHR ''.'' \<notin> set (digits10 n)"
proof (induction n rule: digits10.induct)
  case (1 n)
  show ?case
  proof (cases "n < 10")
    case True
    then show ?thesis
      using digit_no_dot [of n] by (subst digits10.simps) auto
  next
    case False
    have "n mod 10 < 10" by simp
    from digit_no_dot [OF this] 1 False show ?thesis
      by (subst digits10.simps) auto
  qed
qed

lemma Itoa_no_dot: "CHR ''.'' \<notin> set (Itoa k)"
  by (simp add: Itoa_def digits10_no_dot)

lemma ReplaceAll_no_dot:
  "CHR ''.'' \<notin> set s \<Longrightarrow> ReplaceAll (s @ t) ''..'' new = s @ ReplaceAll t ''..'' new"
  by (induction s) auto

lemma drawing_path:
  "ReplaceAll (''../drawings/drawing'' @ Itoa k @ ''.xml'') ''..'' ''xl''
     = ''xl/drawings/drawing'' @ Itoa k @ ''.xml''"
proof -
  have "ReplaceAll (Itoa k @ ''.xml'') ''..'' ''xl'' = Itoa k @ ''.xml''"
    by (simp add: ReplaceAll_no_dot Itoa_no_dot)
  then show ?thesis by simp
qed

subsection \<open>The drawing-document store\<close>

lemma drawingParser_next:
  "drawingParser env f path = Inr (content, cNvPrID) \<Longrightarrow>
   cNvPrID = of_nat (length (TwoCellAnchor content)) + 1"
  by (auto simp: drawingParser_def split: sum.splits option.splits)

lemma drawingParser_stored:
  "Drawings f path = Some content \<Longrightarrow>
   drawingParser env f path = Inr (content, of_nat (length (TwoCellAnchor content)) + 1)"
  by (simp add: drawingParser_def)

lemma drawingParser_cong:
  "Drawings g = Drawings f \<Longrightarrow> Pkg g = Pkg f \<Longrightarrow>
   drawingParser env g path = drawingParser env f path"
  by (auto simp: drawingParser_def split: option.splits)

section \<open>Safety of the dereferences\<close>

lemma resolvedShape_pointers:
  "ShapeLine.Width (Line (resolvedShape env s)) \<noteq> None"
  "Locked (Format (resolvedShape env s)) \<noteq> None"
  "PrintObject (Format (resolvedShape env s)) \<noteq> None"
  by (auto simp: resolvedShape_def split: option.splits)

lemma addDrawingShape_no_panic:
  assumes "ShapeLine.Width (Line (h p)) \<noteq> None" "Locked (Format (h p)) \<noteq> None"
    "PrintObject (Format (h p)) \<noteq> None"
  shows "snd (snd (addDrawingShape env f h sheet drawingXML cell p)) \<noteq> Panicked"
proof -
  obtain f' h' r where run: "addDrawingShape env f h sheet drawingXML cell p = (f', h', r)"
    by (cases "addDrawingShape env f h sheet drawingXML cell p") auto
  from run have "r \<noteq> Panicked"
  proof (cases rule: addDrawingShape_cases)
    case (error err)
    then show ?thesis by simp
  next
    case panic
    with assms show ?thesis by auto
  next
    case (commit fromCol fromRow content cNvPrID lineWidth defaultFont locked printObject)
    then show ?thesis by simp
  qed
  with run show ?thesis by simp
qed

lemma AddShape_no_panic:
  "snd (snd (AddShape env f h sheet cell opts)) \<noteq> Panicked"
proof (cases opts)
  case None
  then show ?thesis by (simp add: AddShape_nil)
next
  case (Some a)
  show ?thesis
  proof (cases "Sheet f sheet")
    case None
    then show ?thesis unfolding Some by (simp add: AddShape_unknown_sheet)
  next
    case (Some ws)
    have "snd (snd (addDrawingShape env (fst (sheetDrawing env f sheet ws))
             (h(a := resolvedShape env (h a))) sheet
             (snd (snd (sheetDrawing env f sheet ws))) cell a)) \<noteq> Panicked"
      by (rule addDrawingShape_no_panic) (simp_all add: resolvedShape_pointers)
    then show ?thesis
      unfolding \<open>opts = Some a\<close> AddShape_Some [OF Some]
      by (simp add: split_def)
  qed
qed

text \<open>
  Claim C10. Whenever \<^verbatim>\<open>parseShapeOptions\<close> returns successfully, the line width, the
  locked flag and the print-with-sheet flag of the description it returns are non-nil;
  hence neither the builder \<^verbatim>\<open>addDrawingShape\<close> run on that description, whatever the
  file, the part path and the cell, nor \<^verbatim>\<open>AddShape\<close> as a whole dereferences a nil
  pointer.
\<close>

theorem parseShapeOptions_no_fault:
  assumes "parseShapeOptions env h opts = (h', Inr p)"
  shows "ShapeLine.Width (Line (h' p)) \<noteq> None \<and>
         Locked (Format (h' p)) \<noteq> None \<and>
         PrintObject (Format (h' p)) \<noteq> None \<and>
         snd (snd (addDrawingShape env f h' sheet drawingXML cell p)) \<noteq> Panicked \<and>
         snd (snd (AddShape env f h sheet cell opts)) \<noteq> Panicked"
proof -
  from assms obtain a where opts: "opts = Some a"
    by (cases opts) (simp_all add: parseShapeOptions_None)
  from assms have res: "h' = h(a := resolvedShape env (h a))" "p = a"
    unfolding opts parseShapeOptions_Some by auto
  have fields: "ShapeLine.Width (Line (h' p)) \<noteq> None" "Locked (Format (h' p)) \<noteq> None"
    "PrintObject (Format (h' p)) \<noteq> None"
    unfolding res by (simp_all add: resolvedShape_pointers)
  from fields addDrawingShape_no_panic [where h = h' and p = p, OF fields] AddShape_no_panic
  show ?thesis
    by blast
qed

theorem parseShapeOptions_no_fault_witness:
  "parseShapeOptions exampleEnv exampleHeap (Some 0)
     = (exampleHeap(0 := resolvedShape exampleEnv exampleShape), Inr 0) \<and>
   ShapeLine.Width (Line (resolvedShape exampleEnv exampleShape)) = Some 2 \<and>
   Locked (Format (resolvedShape exampleEnv exampleShape)) = Some False \<and>
   PrintObject (Format (resolvedShape exampleEnv exampleShape)) = Some True \<and>
   snd (snd (addDrawingShape exampleEnv exampleFile
          (exampleHeap(0 := resolvedShape exampleEnv exampleShape))
          ''Sheet1'' ''xl/drawings/drawing1.xml'' ''G6'' 0)) \<noteq> Panicked \<and>
   snd (snd (AddShape exampleEnv exampleFile exampleHeap ''Sheet1'' ''G6'' (Some 0))) \<noteq> Panicked"
  using parseShapeOptions_no_fault [of exampleEnv exampleHeap "Some 0"
      "exampleHeap(0 := resolvedShape exampleEnv exampleShape)" 0 exampleFile
      "''Sheet1''" "''xl/drawings/drawing1.xml''" "''G6''"]
    exampleResolved_fields [of 0]
  by (simp add: parseShapeOptions_Some exampleHeap_def exampleResolved_def)

section \<open>Failure paths and the shared store\<close>

text \<open>The identity of the shape of an anchor: the field \<^verbatim>\<open>Sp.NvSpPr.CNvPr.ID\<close>.\<close>

definition shapeID :: "xdrCellAnchor \<Rightarrow> go_int option" where
  "shapeID a =
     (case Sp a of
        None \<Rightarrow> None
      | Some sp \<Rightarrow>
          (case NvSpPr sp of
             None \<Rightarrow> None
           | Some nv \<Rightarrow>
               (case CNvPr nv of None \<Rightarrow> None | Some c \<Rightarrow> Some (xlsxCNvPr.ID c))))"

lemma shapeID_shapeAnchor:
  "shapeID (shapeAnchor env s geometry cNvPrID lineWidth locked printObject) = Some cNvPrID"
  by (simp add: shapeID_def shapeAnchor_def split_def)

lemma addDrawingShape_failure:
  assumes "snd (snd (addDrawingShape env f h sheet drawingXML cell p)) \<noteq> Returned None"
  shows "fst (addDrawingShape env f h sheet drawingXML cell p) = f"
proof -
  obtain f' h' r where run: "addDrawingShape env f h sheet drawingXML cell p = (f', h', r)"
    by (cases "addDrawingShape env f h sheet drawingXML cell p") auto
  with assms have failed: "r \<noteq> Returned None" by simp
  from run have "f' = f"
  proof (cases rule: addDrawingShape_cases)
    case (commit fromCol fromRow content cNvPrID lineWidth defaultFont locked printObject)
    with failed show ?thesis by simp
  qed simp_all
  with run show ?thesis by simp
qed

lemma addDrawingShape_success:
  assumes "addDrawingShape env f h sheet drawingXML cell p = (f', h', Returned None)"
  shows "\<exists>content cNvPrID anchor.
     drawingParser env f drawingXML = Inr (content, cNvPrID) \<and>
     shapeID anchor = Some cNvPrID \<and>
     f' = f\<lparr>Drawings := (Drawings f)(drawingXML \<mapsto>
            content\<lparr>TwoCellAnchor := TwoCellAnchor content @ [anchor]\<rparr>)\<rparr>"
  using assms
proof (cases rule: addDrawingShape_cases)
  case (commit fromCol fromRow content cNvPrID lineWidth defaultFont locked printObject)
  from commit(2) commit(9) shapeID_shapeAnchor show ?thesis by blast
qed simp_all

lemma AddShape_failure_file:
  assumes "Sheet f sheet = Some ws"
    and "snd (snd (AddShape env f h sheet cell (Some a))) \<noteq> Returned None"
  shows "fst (AddShape env f h sheet cell (Some a)) = fst (sheetDrawing env f sheet ws)"
proof -
  define run where "run = addDrawingShape env (fst (sheetDrawing env f sheet ws))
      (h(a := resolvedShape env (h a))) sheet (snd (snd (sheetDrawing env f sheet ws))) cell a"
  have call: "AddShape env f h sheet cell (Some a) =
      (if snd (snd run) = Returned None
       then (fst (addContentTypePart (fst run) (fst (snd (sheetDrawing env f sheet ws)))
                ''drawings''), fst (snd run), Returned None)
       else run)"
    unfolding AddShape_Some [OF assms(1)] run_def by (simp add: split_def)
  from assms(2) have failed: "snd (snd run) \<noteq> Returned None"
    unfolding call by (auto split: if_splits)
  then have "fst (AddShape env f h sheet cell (Some a)) = fst run"
    unfolding call by simp
  also have "\<dots> = fst (sheetDrawing env f sheet ws)"
    using failed unfolding run_def by (rule addDrawingShape_failure)
  finally show ?thesis .
qed

lemma sheetDrawing_registered:
  "Drawing ws = None \<Longrightarrow>
   fst (sheetDrawing env f sheet ws) =
     addSheetNameSpace
       (addSheetDrawing
          (fst (addRels f (sheetRels f sheet) (SourceRelationshipDrawingML env)
                  (''../drawings/drawing'' @ Itoa (countDrawings env f + 1) @ ''.xml'') ''''))
          sheet
          (snd (addRels f (sheetRels f sheet) (SourceRelationshipDrawingML env)
                  (''../drawings/drawing'' @ Itoa (countDrawings env f + 1) @ ''.xml'') '''')))
       sheet (SourceRelationship env)"
  unfolding sheetDrawing_def by simp

lemma AddShape_failure_store:
  assumes "snd (snd (AddShape env f h sheet cell opts)) \<noteq> Returned None"
  shows "Drawings (fst (AddShape env f h sheet cell opts)) = Drawings f \<and>
         ContentTypes (fst (AddShape env f h sheet cell opts)) = ContentTypes f \<and>
         Pkg (fst (AddShape env f h sheet cell opts)) = Pkg f"
proof (cases opts)
  case None
  then show ?thesis by (simp add: AddShape_nil)
next
  case (Some a)
  show ?thesis
  proof (cases "Sheet f sheet")
    case None
    then show ?thesis unfolding \<open>opts = Some a\<close> by (simp add: AddShape_unknown_sheet)
  next
    case (Some ws)
    from assms have same: "fst (AddShape env f h sheet cell opts) = fst (sheetDrawing env f sheet ws)"
      unfolding \<open>opts = Some a\<close> by (rule AddShape_failure_file [OF Some])
    show ?thesis
    proof (cases "Drawing ws")
      case None
      from sheetDrawing_new [OF Some None, of env] show ?thesis unfolding same by blast
    next
      case (Some drawing)
      from sheetDrawing_existing [OF Some, of env f sheet] show ?thesis unfolding same by simp
    qed
  qed
qed

lemma AddShape_failure_unchanged:
  assumes "snd (snd (AddShape env f h sheet cell opts)) \<noteq> Returned None"
    and "opts = None \<or> Sheet f sheet = None
           \<or> (\<exists>ws drawing. Sheet f sheet = Some ws \<and> Drawing ws = Some drawing)"
  shows "fst (AddShape env f h sheet cell opts) = f"
proof (cases opts)
  case None
  then show ?thesis by (simp add: AddShape_nil)
next
  case (Some a)
  show ?thesis
  proof (cases "Sheet f sheet")
    case None
    then show ?thesis unfolding \<open>opts = Some a\<close> by (simp add: AddShape_unknown_sheet)
  next
    case (Some ws)
    with assms(2) \<open>opts = Some a\<close> obtain drawing where drawing: "Drawing ws = Some drawing"
      by auto
    from assms(1) have "fst (AddShape env f h sheet cell opts) = fst (sheetDrawing env f sheet ws)"
      unfolding \<open>opts = Some a\<close> by (rule AddShape_failure_file [OF Some])
    with sheetDrawing_existing [OF drawing, of env f sheet] show ?thesis by simp
  qed
qed

subsection \<open>A failing call on a sheet without a drawing\<close>

lemma example_Itoa: "Itoa 1 = ''1''"
  by (simp add: Itoa_def digits10.simps)

lemma example_sheetRels:
  "sheetRels exampleFile ''Sheet1'' = ''xl/worksheets/_rels/sheet1.xml.rels''"
  by (simp add: sheetRels_def getSheetXMLPath_def exampleFile_def TrimPrefix_def)

text \<open>
  The example file once the drawing of its sheet is registered: the relationship, the
  reference of the sheet to it and the namespace.
\<close>

definition exampleRegistered :: File where
  "exampleRegistered =
     \<lparr>sheetMap = [''Sheet1'' \<mapsto> ''xl/worksheets/sheet1.xml''],
      Sheet = [''Sheet1'' \<mapsto> \<lparr>Drawing = Some \<lparr>RID = 1\<rparr>\<rparr>],
      Relationships = [''xl/worksheets/_rels/sheet1.xml.rels'' \<mapsto>
        [\<lparr>xlsxRelationship.ID = 1, xlsxRelationship.Type = ''relationships/drawing'',
          Target = ''../drawings/drawing1.xml'', TargetMode = ''''\<rparr>]],
      Drawings = Map.empty,
      Pkg = Map.empty,
      ContentTypes = [],
      xmlAttr = (\<lambda>sheet. [])(''Sheet1'' := [''relationships''])\<rparr>"

lemma example_sheet: "Sheet exampleFile ''Sheet1'' = Some \<lparr>Drawing = None\<rparr>"
  by (simp add: exampleFile_def)

lemma example_addRels:
  "addRels exampleFile ''xl/worksheets/_rels/sheet1.xml.rels'' ''relationships/drawing''
     ''../drawings/drawing1.xml'' '''' =
   (exampleFile\<lparr>Relationships := [''xl/worksheets/_rels/sheet1.xml.rels'' \<mapsto>
        [\<lparr>xlsxRelationship.ID = 1, xlsxRelationship.Type = ''relationships/drawing'',
          Target = ''../drawings/drawing1.xml'', TargetMode = ''''\<rparr>]]\<rparr>, 1)"
  by (simp add: addRels_def exampleFile_def)

lemma example_sheetDrawing:
  "sheetDrawing exampleEnv exampleFile ''Sheet1'' \<lparr>Drawing = None\<rparr>
     = (exampleRegistered, 1, ''xl/drawings/drawing1.xml'')"
proof -
  have kinds: "SourceRelationshipDrawingML exampleEnv = ''relationships/drawing''"
    "SourceRelationship exampleEnv = ''relationships''"
    by (simp_all add: exampleEnv_def)
  have target: "''../drawings/drawing'' @ Itoa 1 @ ''.xml'' = ''../drawings/drawing1.xml''"
    "''xl/drawings/drawing'' @ Itoa 1 @ ''.xml'' = ''xl/drawings/drawing1.xml''"
    by (simp_all add: example_Itoa)
  have "sheetDrawing exampleEnv exampleFile ''Sheet1'' \<lparr>Drawing = None\<rparr> =
      (addSheetNameSpace
         (addSheetDrawing
            (exampleFile\<lparr>Relationships := [''xl/worksheets/_rels/sheet1.xml.rels'' \<mapsto>
               [\<lparr>xlsxRelationship.ID = 1, xlsxRelationship.Type = ''relationships/drawing'',
                 Target = ''../drawings/drawing1.xml'', TargetMode = ''''\<rparr>]]\<rparr>)
            ''Sheet1'' 1)
         ''Sheet1'' ''relationships'',
       1, ''xl/drawings/drawing1.xml'')"
    unfolding sheetDrawing_def example_sheetRels kinds exampleEnv_fields(5)
    by (simp only: xlsxWorksheet.simps option.case add_0 target example_addRels fst_conv snd_conv)
  also have "\<dots> = (exampleRegistered, 1, ''xl/drawings/drawing1.xml'')"
    by (simp add: addSheetNameSpace_def addSheetDrawing_def exampleFile_def
        exampleRegistered_def)
  finally show ?thesis .
qed

lemma example_AddShape_bad_cell:
  "AddShape exampleEnv exampleFile exampleHeap ''Sheet1'' ''6G'' (Some 0) =
     (exampleRegistered, exampleHeap(0 := resolvedShape exampleEnv (exampleHeap 0)),
      Returned (Some (ErrCollaborator ''invalid cell name'')))"
  unfolding AddShape_Some [OF example_sheet] example_sheetDrawing fst_conv snd_conv
    addDrawingShape_cell_error [OF exampleEnv_fields(2)]
  by simp

text \<open>
  Claim C3, as stated, fails. The sheet of the example file has no drawing, and the cell
  reference \<^verbatim>\<open>6G\<close> is invalid: \<^verbatim>\<open>AddShape\<close> returns the error of the cell parser, and yet
  the sheet descriptor and the relationship registry are not as they were before the call,
  since the drawing relationship is registered before the builder runs.
\<close>

theorem AddShape_failure_counterexample:
  "snd (snd (AddShape exampleEnv exampleFile exampleHeap ''Sheet1'' ''6G'' (Some 0)))
     = Returned (Some (ErrCollaborator ''invalid cell name'')) \<and>
   Sheet exampleFile ''Sheet1'' = Some \<lparr>Drawing = None\<rparr> \<and>
   Sheet (fst (AddShape exampleEnv exampleFile exampleHeap ''Sheet1'' ''6G'' (Some 0))) ''Sheet1''
     = Some \<lparr>Drawing = Some \<lparr>RID = 1\<rparr>\<rparr> \<and>
   Relationships exampleFile ''xl/worksheets/_rels/sheet1.xml.rels'' = None \<and>
   Relationships (fst (AddShape exampleEnv exampleFile exampleHeap ''Sheet1'' ''6G'' (Some 0)))
       ''xl/worksheets/_rels/sheet1.xml.rels''
     = Some [\<lparr>xlsxRelationship.ID = 1, xlsxRelationship.Type = ''relationships/drawing'',
              Target = ''../drawings/drawing1.xml'', TargetMode = ''''\<rparr>]"
  unfolding example_AddShape_bad_cell
  by (simp add: exampleFile_def exampleRegistered_def)

text \<open>
  Claim C3, amended. Every failure of the builder \<^verbatim>\<open>addDrawingShape\<close> (invalid cell
  reference, parse failure of the drawing part, failure of the default-font provider)
  leaves the whole file as it was, and a successful call of the builder changes nothing
  but the drawing-document store, at the part path, by storing the loaded document with
  one anchor appended: the commit is its only mutation. Every failure of \<^verbatim>\<open>AddShape\<close>
  leaves the drawing-document store, the content-type registry and the bytes of the parts
  as they were. It leaves the whole file as it was when the description is nil, the sheet
  is unknown or the sheet already references a drawing part. When the sheet has no
  drawing yet, the relationship, the drawing reference of the sheet and the namespace,
  which \<^verbatim>\<open>AddShape\<close> registers before it calls the builder, remain after the failure.
\<close>

theorem failure_paths_store:
  "(snd (snd (addDrawingShape env f h sheet drawingXML cell p)) \<noteq> Returned None \<longrightarrow>
      fst (addDrawingShape env f h sheet drawingXML cell p) = f) \<and>
   (snd (snd (addDrawingShape env f h sheet drawingXML cell p)) = Returned None \<longrightarrow>
      (\<exists>content cNvPrID anchor.
         drawingParser env f drawingXML = Inr (content, cNvPrID) \<and>
         fst (addDrawingShape env f h sheet drawingXML cell p) =
           f\<lparr>Drawings := (Drawings f)(drawingXML \<mapsto>
                content\<lparr>TwoCellAnchor := TwoCellAnchor content @ [anchor]\<rparr>)\<rparr>)) \<and>
   (snd (snd (AddShape env f h sheet cell opts)) \<noteq> Returned None \<longrightarrow>
      Drawings (fst (AddShape env f h sheet cell opts)) = Drawings f \<and>
      ContentTypes (fst (AddShape env f h sheet cell opts)) = ContentTypes f \<and>
      Pkg (fst (AddShape env f h sheet cell opts)) = Pkg f \<and>
      (opts = None \<or> Sheet f sheet = None
         \<or> (\<exists>ws drawing. Sheet f sheet = Some ws \<and> Drawing ws = Some drawing) \<longrightarrow>
       fst (AddShape env f h sheet cell opts) = f) \<and>
      (\<forall>ws. opts \<noteq> None \<and> Sheet f sheet = Some ws \<and> Drawing ws = None \<longrightarrow>
         fst (AddShape env f h sheet cell opts) =
           addSheetNameSpace
             (addSheetDrawing
                (fst (addRels f (sheetRels f sheet) (SourceRelationshipDrawingML env)
                   (''../drawings/drawing'' @ Itoa (countDrawings env f + 1) @ ''.xml'') ''''))
                sheet
                (snd (addRels f (sheetRels f sheet) (SourceRelationshipDrawingML env)
                   (''../drawings/drawing'' @ Itoa (countDrawings env f + 1) @ ''.xml'') '''')))
             sheet (SourceRelationship env)))"
proof -
  have builder_failure:
    "snd (snd (addDrawingShape env f h sheet drawingXML cell p)) \<noteq> Returned None \<Longrightarrow>
     fst (addDrawingShape env f h sheet drawingXML cell p) = f"
    by (rule addDrawingShape_failure)
  have builder_success:
    "\<exists>content cNvPrID anchor.
         drawingParser env f drawingXML = Inr (content, cNvPrID) \<and>
         fst (addDrawingShape env f h sheet drawingXML cell p) =
           f\<lparr>Drawings := (Drawings f)(drawingXML \<mapsto>
                content\<lparr>TwoCellAnchor := TwoCellAnchor content @ [anchor]\<rparr>)\<rparr>"
    if finished: "snd (snd (addDrawingShape env f h sheet drawingXML cell p)) = Returned None"
  proof -
    obtain f' h' r where run: "addDrawingShape env f h sheet drawingXML cell p = (f', h', r)"
      by (cases "addDrawingShape env f h sheet drawingXML cell p") auto
    with finished have "addDrawingShape env f h sheet drawingXML cell p = (f', h', Returned None)"
      by simp
    from addDrawingShape_success [OF this] run show ?thesis by auto
  qed
  have store:
    "Drawings (fst (AddShape env f h sheet cell opts)) = Drawings f \<and>
     ContentTypes (fst (AddShape env f h sheet cell opts)) = ContentTypes f \<and>
     Pkg (fst (AddShape env f h sheet cell opts)) = Pkg f"
    if "snd (snd (AddShape env f h sheet cell opts)) \<noteq> Returned None"
    using that by (rule AddShape_failure_store)
  have unchanged: "fst (AddShape env f h sheet cell opts) = f"
    if "snd (snd (AddShape env f h sheet cell opts)) \<noteq> Returned None"
      and "opts = None \<or> Sheet f sheet = None
         \<or> (\<exists>ws drawing. Sheet f sheet = Some ws \<and> Drawing ws = Some drawing)"
    using that by (rule AddShape_failure_unchanged)
  have registered: "fst (AddShape env f h sheet cell opts) =
           addSheetNameSpace
             (addSheetDrawing
                (fst (addRels f (sheetRels f sheet) (SourceRelationshipDrawingML env)
                   (''../drawings/drawing'' @ Itoa (countDrawings env f + 1) @ ''.xml'') ''''))
                sheet
                (snd (addRels f (sheetRels f sheet) (SourceRelationshipDrawingML env)
                   (''../drawings/drawing'' @ Itoa (countDrawings env f + 1) @ ''.xml'') '''')))
             sheet (SourceRelationship env)"
    if failed: "snd (snd (AddShape env f h sheet cell opts)) \<noteq> Returned None"
      and new: "opts \<noteq> None \<and> Sheet f sheet = Some ws \<and> Drawing ws = None"
    for ws
  proof -
    from new obtain a where opts: "opts = Some a" by auto
    from new have ws: "Sheet f sheet = Some ws" "Drawing ws = None" by simp_all
    from failed have "fst (AddShape env f h sheet cell opts) = fst (sheetDrawing env f sheet ws)"
      unfolding opts by (rule AddShape_failure_file [OF ws(1)])
    then show ?thesis
      unfolding sheetDrawing_registered [OF ws(2)] .
  qed
  show ?thesis
    apply (intro conjI impI allI)
    subgoal by (rule builder_failure)
    subgoal by (rule builder_success)
    subgoal using store by blast
    subgoal using store by blast
    subgoal using store by blast
    subgoal by (rule unchanged)
    subgoal by (rule registered)
    done
qed

theorem failure_paths_store_witness:
  "snd (snd (addDrawingShape exampleEnv exampleFile exampleResolved ''Sheet1''
       ''xl/drawings/drawing1.xml'' ''6G'' 0))
     = Returned (Some (ErrCollaborator ''invalid cell name'')) \<and>
   fst (addDrawingShape exampleEnv exampleFile exampleResolved ''Sheet1''
       ''xl/drawings/drawing1.xml'' ''6G'' 0) = exampleFile \<and>
   snd (snd (addDrawingShape exampleEnv exampleFile exampleResolved ''Sheet1''
       ''xl/drawings/drawing1.xml'' ''G6'' 0)) = Returned None \<and>
   map_option (\<lambda>content. length (TwoCellAnchor content))
     (Drawings (fst (addDrawingShape exampleEnv exampleFile exampleResolved ''Sheet1''
        ''xl/drawings/drawing1.xml'' ''G6'' 0)) ''xl/drawings/drawing1.xml'') = Some 1 \<and>
   snd (snd (AddShape exampleEnv exampleFile exampleHeap ''Sheet1'' ''6G'' None))
     = Returned (Some ErrParameterInvalid) \<and>
   fst (AddShape exampleEnv exampleFile exampleHeap ''Sheet1'' ''6G'' None) = exampleFile \<and>
   snd (snd (AddShape exampleEnv exampleFile exampleHeap ''Sheet1'' ''6G'' (Some 0)))
     = Returned (Some (ErrCollaborator ''invalid cell name'')) \<and>
   Drawings (fst (AddShape exampleEnv exampleFile exampleHeap ''Sheet1'' ''6G'' (Some 0)))
     = Drawings exampleFile \<and>
   ContentTypes (fst (AddShape exampleEnv exampleFile exampleHeap ''Sheet1'' ''6G'' (Some 0)))
     = ContentTypes exampleFile \<and>
   fst (AddShape exampleEnv exampleFile exampleHeap ''Sheet1'' ''6G'' (Some 0))
     = exampleRegistered"
proof -
  have bad: "addDrawingShape exampleEnv exampleFile exampleResolved ''Sheet1''
       ''xl/drawings/drawing1.xml'' ''6G'' 0
     = (exampleFile, exampleResolved, Returned (Some (ErrCollaborator ''invalid cell name'')))"
    by (rule addDrawingShape_cell_error [OF exampleEnv_fields(2)])
  from failure_paths_store [where env = exampleEnv and f = exampleFile and h = exampleResolved
      and sheet = "''Sheet1''" and drawingXML = "''xl/drawings/drawing1.xml''"
      and cell = "''6G''" and p = 0 and opts = "Some 0"]
  have one: "fst (addDrawingShape exampleEnv exampleFile exampleResolved ''Sheet1''
       ''xl/drawings/drawing1.xml'' ''6G'' 0) = exampleFile"
    unfolding bad by simp
  from example_addDrawingShape obtain f' h' where
    good: "addDrawingShape exampleEnv exampleFile exampleResolved ''Sheet1''
       ''xl/drawings/drawing1.xml'' ''G6'' 0 = (f', h', Returned None)"
    by blast
  from failure_paths_store [where env = exampleEnv and f = exampleFile and h = exampleResolved
      and sheet = "''Sheet1''" and drawingXML = "''xl/drawings/drawing1.xml''"
      and cell = "''G6''" and p = 0 and opts = "Some 0"]
  have two: "map_option (\<lambda>content. length (TwoCellAnchor content))
     (Drawings (fst (addDrawingShape exampleEnv exampleFile exampleResolved ''Sheet1''
        ''xl/drawings/drawing1.xml'' ''G6'' 0)) ''xl/drawings/drawing1.xml'') = Some 1"
    unfolding good exampleFile_drawingParser by auto
  from failure_paths_store [where env = exampleEnv and f = exampleFile and h = exampleHeap
      and sheet = "''Sheet1''" and drawingXML = "''xl/drawings/drawing1.xml''"
      and cell = "''6G''" and p = 0 and opts = "None"]
  have three: "fst (AddShape exampleEnv exampleFile exampleHeap ''Sheet1'' ''6G'' None)
      = exampleFile"
    unfolding AddShape_nil by simp
  from failure_paths_store [where env = exampleEnv and f = exampleFile and h = exampleHeap
      and sheet = "''Sheet1''" and drawingXML = "''xl/drawings/drawing1.xml''"
      and cell = "''6G''" and p = 0 and opts = "Some 0"]
  have four:
    "Drawings (fst (AddShape exampleEnv exampleFile exampleHeap ''Sheet1'' ''6G'' (Some 0)))
       = Drawings exampleFile"
    "ContentTypes (fst (AddShape exampleEnv exampleFile exampleHeap ''Sheet1'' ''6G'' (Some 0)))
       = ContentTypes exampleFile"
    unfolding example_AddShape_bad_cell by simp_all
  from bad one good two three four show ?thesis
    by (simp add: AddShape_nil example_AddShape_bad_cell)
qed

section \<open>Two calls on one sheet\<close>

lemma sheetDrawing_store:
  assumes sheet: "Sheet f sheet = Some ws"
  shows "Drawings (fst (sheetDrawing env f sheet ws)) = Drawings f \<and>
     Pkg (fst (sheetDrawing env f sheet ws)) = Pkg f \<and>
     (\<exists>ws1 d. Sheet (fst (sheetDrawing env f sheet ws)) sheet = Some ws1 \<and>
        Drawing ws1 = Some d \<and>
        ReplaceAll (getSheetRelationshipsTargetByID (fst (sheetDrawing env f sheet ws)) sheet
          (RID d)) ''..'' ''xl'' = snd (snd (sheetDrawing env f sheet ws)))"
proof (cases "Drawing ws")
  case None
  from sheetDrawing_new [OF sheet None, of env] obtain rID where new:
    "Sheet (fst (sheetDrawing env f sheet ws)) sheet = Some (ws\<lparr>Drawing := Some \<lparr>RID = rID\<rparr>\<rparr>)"
    "getSheetRelationshipsTargetByID (fst (sheetDrawing env f sheet ws)) sheet rID
       = ''../drawings/drawing'' @ Itoa (countDrawings env f + 1) @ ''.xml''"
    "Drawings (fst (sheetDrawing env f sheet ws)) = Drawings f"
    "Pkg (fst (sheetDrawing env f sheet ws)) = Pkg f"
    "snd (snd (sheetDrawing env f sheet ws))
       = ''xl/drawings/drawing'' @ Itoa (countDrawings env f + 1) @ ''.xml''"
    by blast
  have reference: "Drawing (ws\<lparr>Drawing := Some \<lparr>RID = rID\<rparr>\<rparr>) = Some \<lparr>RID = rID\<rparr>"
    by simp
  have "ReplaceAll (getSheetRelationshipsTargetByID (fst (sheetDrawing env f sheet ws)) sheet
       (RID \<lparr>RID = rID\<rparr>)) ''..'' ''xl'' = snd (snd (sheetDrawing env f sheet ws))"
    unfolding new(5) xlsxDrawing.select_convs new(2) by (rule drawing_path)
  with reference new(1,3,4) show ?thesis by blast
next
  case (Some d)
  from sheetDrawing_existing [OF Some, of env f sheet] sheet Some show ?thesis by auto
qed

lemma AddShape_success:
  assumes run: "AddShape env f h sheet cell opts = (f1, h1, Returned None)"
  shows "\<exists>drawingXML content N a ws1 d.
     drawingParser env f drawingXML = Inr (content, N) \<and>
     shapeID a = Some N \<and>
     Drawings f1 = (Drawings f)(drawingXML \<mapsto>
        content\<lparr>TwoCellAnchor := TwoCellAnchor content @ [a]\<rparr>) \<and>
     Pkg f1 = Pkg f \<and>
     Sheet f1 sheet = Some ws1 \<and> Drawing ws1 = Some d \<and>
     ReplaceAll (getSheetRelationshipsTargetByID f1 sheet (RID d)) ''..'' ''xl'' = drawingXML"
proof -
  from run obtain a0 where opts: "opts = Some a0"
    by (cases opts) (simp_all add: AddShape_nil)
  from run obtain ws where sheet: "Sheet f sheet = Some ws"
    unfolding opts by (cases "Sheet f sheet") (simp_all add: AddShape_unknown_sheet)
  define fr where "fr = fst (sheetDrawing env f sheet ws)"
  define path where "path = snd (snd (sheetDrawing env f sheet ws))"
  define idx where "idx = fst (snd (sheetDrawing env f sheet ws))"
  obtain fb hb r where builder:
    "addDrawingShape env fr (h(a0 := resolvedShape env (h a0))) sheet path cell a0 = (fb, hb, r)"
    by (cases "addDrawingShape env fr (h(a0 := resolvedShape env (h a0))) sheet path cell a0") auto
  from run have result:
    "(if r = Returned None then (fst (addContentTypePart fb idx ''drawings''), hb, Returned None)
      else (fb, hb, r)) = (f1, h1, Returned None)"
    unfolding opts AddShape_Some [OF sheet] fr_def [symmetric] path_def [symmetric]
      idx_def [symmetric] builder by simp
  then have r: "r = Returned None" by (auto split: if_splits)
  with result have f1: "f1 = fst (addContentTypePart fb idx ''drawings'')" by simp
  from builder r have "addDrawingShape env fr (h(a0 := resolvedShape env (h a0))) sheet path cell a0
      = (fb, hb, Returned None)" by simp
  from addDrawingShape_success [OF this] obtain content N a where commit:
    "drawingParser env fr path = Inr (content, N)" "shapeID a = Some N"
    "fb = fr\<lparr>Drawings := (Drawings fr)(path \<mapsto>
        content\<lparr>TwoCellAnchor := TwoCellAnchor content @ [a]\<rparr>)\<rparr>"
    by blast
  from sheetDrawing_store [OF sheet, of env] obtain ws1 d where store:
    "Drawings fr = Drawings f" "Pkg fr = Pkg f"
    "Sheet fr sheet = Some ws1" "Drawing ws1 = Some d"
    "ReplaceAll (getSheetRelationshipsTargetByID fr sheet (RID d)) ''..'' ''xl'' = path"
    unfolding fr_def path_def by blast
  have fields: "Sheet f1 = Sheet fr" "sheetMap f1 = sheetMap fr"
    "Relationships f1 = Relationships fr" "Pkg f1 = Pkg fr"
    "Drawings f1 = (Drawings fr)(path \<mapsto>
        content\<lparr>TwoCellAnchor := TwoCellAnchor content @ [a]\<rparr>)"
    unfolding f1 addContentTypePart_fields commit(3) by simp_all
  have "drawingParser env f path = Inr (content, N)"
    using commit(1) drawingParser_cong [OF store(1) store(2), of env path] by simp
  moreover have "Drawings f1 = (Drawings f)(path \<mapsto>
        content\<lparr>TwoCellAnchor := TwoCellAnchor content @ [a]\<rparr>)"
    unfolding fields(5) store(1) ..
  moreover have "Pkg f1 = Pkg f" unfolding fields(4) store(2) ..
  moreover have "Sheet f1 sheet = Some ws1" unfolding fields(1) by (rule store(3))
  moreover have "ReplaceAll (getSheetRelationshipsTargetByID f1 sheet (RID d)) ''..'' ''xl'' = path"
    unfolding target_cong [OF fields(2) fields(3)] by (rule store(5))
  ultimately show ?thesis using commit(2) store(4) by blast
qed

text \<open>
  Claim C1. When two calls of \<^verbatim>\<open>AddShape\<close> on the same sheet succeed one after the other,
  there is one drawing part such that the first call stores the document of that part
  with its anchor appended and the second call stores it with both anchors appended,
  every other entry of the drawing-document store being as before; after the first call
  the sheet references that part through its drawing relationship, which the second call
  resolves again; and the two shapes have the identities \<open>N\<close> and \<open>N + 1\<close>, where \<open>N\<close> is
  one greater than the number of anchors of the part before the first call.
\<close>

theorem AddShape_twice:
  assumes first: "AddShape env f h sheet cell1 opts1 = (f1, h1, Returned None)"
    and second: "AddShape env f1 h1 sheet cell2 opts2 = (f2, h2, Returned None)"
  shows "\<exists>drawingXML content N a1 a2 ws1 d.
     drawingParser env f drawingXML = Inr (content, N) \<and>
     N = of_nat (length (TwoCellAnchor content)) + 1 \<and>
     Drawings f1 = (Drawings f)(drawingXML \<mapsto>
        content\<lparr>TwoCellAnchor := TwoCellAnchor content @ [a1]\<rparr>) \<and>
     Drawings f2 = (Drawings f)(drawingXML \<mapsto>
        content\<lparr>TwoCellAnchor := TwoCellAnchor content @ [a1, a2]\<rparr>) \<and>
     shapeID a1 = Some N \<and> shapeID a2 = Some (N + 1) \<and>
     Sheet f1 sheet = Some ws1 \<and> Drawing ws1 = Some d \<and>
     ReplaceAll (getSheetRelationshipsTargetByID f1 sheet (RID d)) ''..'' ''xl'' = drawingXML \<and>
     Sheet f2 sheet = Some ws1 \<and>
     ReplaceAll (getSheetRelationshipsTargetByID f2 sheet (RID d)) ''..'' ''xl'' = drawingXML"
proof -
  from AddShape_success [OF first] obtain drawingXML content N a1 ws1 d where one:
    "drawingParser env f drawingXML = Inr (content, N)"
    "shapeID a1 = Some N"
    "Drawings f1 = (Drawings f)(drawingXML \<mapsto>
        content\<lparr>TwoCellAnchor := TwoCellAnchor content @ [a1]\<rparr>)"
    "Sheet f1 sheet = Some ws1" "Drawing ws1 = Some d"
    "ReplaceAll (getSheetRelationshipsTargetByID f1 sheet (RID d)) ''..'' ''xl'' = drawingXML"
    by blast
  from second obtain a0 where opts: "opts2 = Some a0"
    by (cases opts2) (simp_all add: AddShape_nil)
  define hr where "hr = h1(a0 := resolvedShape env (h1 a0))"
  have same: "fst (sheetDrawing env f1 sheet ws1) = f1"
    "snd (snd (sheetDrawing env f1 sheet ws1)) = drawingXML"
    using sheetDrawing_existing [OF one(5), of env f1 sheet] one(6) by simp_all
  obtain fb hb r where builder:
    "addDrawingShape env f1 hr sheet drawingXML cell2 a0 = (fb, hb, r)"
    by (cases "addDrawingShape env f1 hr sheet drawingXML cell2 a0") auto
  from second have result:
    "(if r = Returned None
      then (fst (addContentTypePart fb (fst (snd (sheetDrawing env f1 sheet ws1))) ''drawings''),
            hb, Returned None)
      else (fb, hb, r)) = (f2, h2, Returned None)"
    unfolding opts AddShape_Some [OF one(4)] same hr_def [symmetric] builder by simp
  then have r: "r = Returned None" by (auto split: if_splits)
  with result have f2:
    "f2 = fst (addContentTypePart fb (fst (snd (sheetDrawing env f1 sheet ws1))) ''drawings'')"
    by simp
  from builder r have "addDrawingShape env f1 hr sheet drawingXML cell2 a0
      = (fb, hb, Returned None)" by simp
  from addDrawingShape_success [OF this] obtain content2 N2 a2 where commit:
    "drawingParser env f1 drawingXML = Inr (content2, N2)" "shapeID a2 = Some N2"
    "fb = f1\<lparr>Drawings := (Drawings f1)(drawingXML \<mapsto>
        content2\<lparr>TwoCellAnchor := TwoCellAnchor content2 @ [a2]\<rparr>)\<rparr>"
    by blast
  have stored: "Drawings f1 drawingXML
      = Some (content\<lparr>TwoCellAnchor := TwoCellAnchor content @ [a1]\<rparr>)"
    unfolding one(3) by simp
  from commit(1) have loaded:
    "content2 = content\<lparr>TwoCellAnchor := TwoCellAnchor content @ [a1]\<rparr>"
    "N2 = of_nat (length (TwoCellAnchor content) + 1) + 1"
    unfolding drawingParser_stored [OF stored] by simp_all
  have seed: "N = of_nat (length (TwoCellAnchor content)) + 1"
    using one(1) by (rule drawingParser_next)
  have next_id: "N2 = N + 1" unfolding loaded(2) seed by simp
  have fields: "Sheet f2 = Sheet f1" "sheetMap f2 = sheetMap f1"
    "Relationships f2 = Relationships f1"
    unfolding f2 addContentTypePart_fields commit(3) by simp_all
  have "Drawings f2 = (Drawings f1)(drawingXML \<mapsto>
        content2\<lparr>TwoCellAnchor := TwoCellAnchor content2 @ [a2]\<rparr>)"
    unfolding f2 addContentTypePart_fields commit(3) by simp
  then have both: "Drawings f2 = (Drawings f)(drawingXML \<mapsto>
        content\<lparr>TwoCellAnchor := TwoCellAnchor content @ [a1, a2]\<rparr>)"
    unfolding loaded(1) one(3) by simp
  have again: "Sheet f2 sheet = Some ws1"
    "ReplaceAll (getSheetRelationshipsTargetByID f2 sheet (RID d)) ''..'' ''xl'' = drawingXML"
    unfolding fields(1) target_cong [OF fields(2) fields(3)] by (rule one(4), rule one(6))
  from one(1) seed one(3) both one(2) commit(2) [unfolded next_id] one(4) one(5) one(6) again
  show ?thesis by blast
qed

subsection \<open>Two calls on the example file\<close>

lemma drawingParser_no_bytes:
  "Pkg f = Map.empty \<Longrightarrow> \<exists>content N. drawingParser env f path = Inr (content, N)"
  by (auto simp: drawingParser_def split: option.splits)

lemma AddShape_succeeds:
  assumes sheet: "Sheet f sheet = Some ws"
    and cell: "CellNameToCoordinates env cell = Inr (col, row)"
    and font: "GetDefaultFont env (fst (sheetDrawing env f sheet ws)) = Inr font"
    and bytes: "Pkg f = Map.empty"
  shows "\<exists>f1 h1. AddShape env f h sheet cell (Some a) = (f1, h1, Returned None)"
proof -
  define fr where "fr = fst (sheetDrawing env f sheet ws)"
  define path where "path = snd (snd (sheetDrawing env f sheet ws))"
  define hr where "hr = h(a := resolvedShape env (h a))"
  from sheetDrawing_store [OF sheet, of env] bytes have "Pkg fr = Map.empty"
    unfolding fr_def by simp
  from drawingParser_no_bytes [OF this] obtain content N where
    doc: "drawingParser env fr path = Inr (content, N)"
    by blast
  have "hr a = resolvedShape env (h a)" unfolding hr_def by simp
  with resolvedShape_pointers [of env "h a"] obtain lineWidth locked printObject where
    fields: "ShapeLine.Width (Line (hr a)) = Some lineWidth"
      "Locked (Format (hr a)) = Some locked" "PrintObject (Format (hr a)) = Some printObject"
    by auto
  from addDrawingShape_commit [where h = hr and opts = a and sheet = sheet,
      OF cell doc fields(1) font [folded fr_def] fields(2) fields(3)]
  have "snd (snd (addDrawingShape env fr hr sheet path cell a)) = Returned None"
    by simp
  then show ?thesis
    unfolding AddShape_Some [OF sheet] fr_def [symmetric] path_def [symmetric]
      hr_def [symmetric]
    by (simp add: split_def)
qed

theorem AddShape_twice_witness:
  "\<exists>f1 h1 f2 h2 drawingXML a1 a2.
     AddShape exampleEnv exampleFile exampleHeap ''Sheet1'' ''G6'' (Some 0)
       = (f1, h1, Returned None) \<and>
     AddShape exampleEnv f1 h1 ''Sheet1'' ''G6'' (Some 0) = (f2, h2, Returned None) \<and>
     Drawings f1 = [drawingXML \<mapsto> \<lparr>TwoCellAnchor = [a1]\<rparr>] \<and>
     Drawings f2 = [drawingXML \<mapsto> \<lparr>TwoCellAnchor = [a1, a2]\<rparr>] \<and>
     shapeID a1 = Some 1 \<and> shapeID a2 = Some 2"
proof -
  have bytes: "Pkg exampleFile = Map.empty" by (simp add: exampleFile_def)
  from AddShape_succeeds [OF example_sheet exampleEnv_fields(1) exampleEnv_fields(3) bytes]
  obtain f1 h1 where first:
    "AddShape exampleEnv exampleFile exampleHeap ''Sheet1'' ''G6'' (Some 0)
       = (f1, h1, Returned None)"
    by blast
  from AddShape_success [OF first] bytes obtain ws1 where
    after: "Sheet f1 ''Sheet1'' = Some ws1" "Pkg f1 = Map.empty"
    by auto
  from AddShape_succeeds [OF after(1) exampleEnv_fields(1) exampleEnv_fields(3) after(2)]
  obtain f2 h2 where second:
    "AddShape exampleEnv f1 h1 ''Sheet1'' ''G6'' (Some 0) = (f2, h2, Returned None)"
    by blast
  from AddShape_twice [OF first second] obtain drawingXML content N a1 a2 where both:
    "drawingParser exampleEnv exampleFile drawingXML = Inr (content, N)"
    "Drawings f1 = (Drawings exampleFile)(drawingXML \<mapsto>
        content\<lparr>TwoCellAnchor := TwoCellAnchor content @ [a1]\<rparr>)"
    "Drawings f2 = (Drawings exampleFile)(drawingXML \<mapsto>
        content\<lparr>TwoCellAnchor := TwoCellAnchor content @ [a1, a2]\<rparr>)"
    "shapeID a1 = Some N" "shapeID a2 = Some (N + 1)"
    by blast
  from both(1) have empty: "content = \<lparr>TwoCellAnchor = []\<rparr>" "N = 1"
    unfolding exampleFile_drawingParser by simp_all
  have "Drawings f1 = [drawingXML \<mapsto> \<lparr>TwoCellAnchor = [a1]\<rparr>]"
    "Drawings f2 = [drawingXML \<mapsto> \<lparr>TwoCellAnchor = [a1, a2]\<rparr>]"
    "shapeID a1 = Some 1" "shapeID a2 = Some 2"
    using both(2-5) unfolding empty by (simp_all add: exampleFile_def)
  with first second show ?thesis by blast
qed

end
